theory Spec2Isabelle
  imports Complex_Main
begin

section \<open>Strings\<close>

text \<open>
  A JavaScript string is a sequence of UTF-16 code units. It is modelled as a \<open>string\<close>
  whose characters are the code units below 256. \<open>String.prototype.trim\<close> removes white
  space and line terminators at both ends; below 256 these are U+0009 to U+000D, U+0020
  and U+00A0.
\<close>

definition is_ws :: "char \<Rightarrow> bool" where
  "is_ws c = (of_char c \<in> {9, 10, 11, 12, 13, 32, 160 :: nat})"

definition trim :: "string \<Rightarrow> string" where
  "trim s = rev (dropWhile is_ws (rev (dropWhile is_ws s)))"

text \<open>A string is truthy when it is neither \<open>undefined\<close> nor empty.\<close>

fun truthy :: "string option \<Rightarrow> bool" where
  "truthy None = False"
| "truthy (Some s) = (s \<noteq> [])"

text \<open>The decimal numeral a template literal prints for a non-negative integer.\<close>

fun decimal :: "nat \<Rightarrow> string" where
  "decimal n =
     (if n < 10 then [char_of (48 + n)]
      else decimal (n div 10) @ [char_of (48 + n mod 10)])"

declare decimal.simps [simp del]

section \<open>constants.ts\<close>

datatype ApiProvider = openai | anthropic

fun provider_name :: "ApiProvider \<Rightarrow> string" where
  "provider_name openai = ''openai''"
| "provider_name anthropic = ''anthropic''"

fun DEFAULT_MODELS :: "ApiProvider \<Rightarrow> string" where
  "DEFAULT_MODELS openai = ''gpt-4o''"
| "DEFAULT_MODELS anthropic = ''claude-sonnet-4-20250514''"

fun API_ENDPOINTS :: "ApiProvider \<Rightarrow> string" where
  "API_ENDPOINTS openai = ''https://api.openai.com/v1/chat/completions''"
| "API_ENDPOINTS anthropic = ''https://api.anthropic.com/v1/messages''"

record HistoryEntry =
  original :: string
  upscaled :: string
  timestamp :: int

text \<open>
  The settings of section \<open>gigo\<close>; \<open>None\<close> is a key for which \<open>config.get\<close> returns
  \<open>undefined\<close>. The history size is a JavaScript number; the integers are modelled.
\<close>

record Config =
  apiKey :: "string option"
  apiProvider :: "ApiProvider option"
  model :: "string option"
  systemPrompt :: "string option"
  historySize :: "int option"

section \<open>The surrounding application\<close>

text \<open>A thrown value: an \<open>Error\<close> or a \<open>RangeError\<close> with its message.\<close>

datatype exn = Error string | RangeError string

fun message :: "exn \<Rightarrow> string" where
  "message (Error m) = m"
| "message (RangeError m) = m"

text \<open>
  The cancellation token of one invocation, by its state when the provider call has
  resolved (a token only ever goes from not requested to requested).
\<close>

record CancellationToken =
  isCancellationRequested :: bool

text \<open>
  The response of \<open>sendRequest\<close>: the chunks its text stream yields, and the error the
  stream throws after them, if any. The stream is finite.
\<close>

record ChatResponse =
  chunks :: "string list"
  stream_error :: "exn option"

datatype LanguageModelChat =
  LanguageModelChat (sendRequest: "string list \<Rightarrow> CancellationToken \<Rightarrow> exn + ChatResponse")

text \<open>
  \<open>vscode.lm\<close>: \<open>selectChatModels\<close> takes the selector's family, \<open>None\<close> for the
  selector \<open>{}\<close>.
\<close>

record LmApi =
  selectChatModels :: "string option \<Rightarrow> exn + LanguageModelChat list"

datatype json =
    JString string
  | JNumber rat
  | JArray "json list"
  | JObject "(string \<times> json) list"

record HttpRequest =
  url :: string
  http_method :: string
  headers :: "(string \<times> string) list"
  body :: json

text \<open>
  A response of \<open>fetch\<close>. \<open>body_text\<close> is what \<open>response.text()\<close> resolves to and
  \<open>body_json\<close> what \<open>response.json()\<close> resolves to, at the type the source asserts for
  it; \<open>Inl\<close> is a rejection.
\<close>

record 'd Response =
  ok :: bool
  status :: nat
  body_text :: "exn + string"
  body_json :: "exn + 'd"

record Message =
  content :: "string option"

record Choice =
  message_of :: "Message option"

record OpenAIData =
  choices :: "Choice list option"

record ContentBlock =
  block_type :: string
  block_text :: "string option"

record AnthropicData =
  content_blocks :: "ContentBlock list option"

record QuickPickItem =
  label :: string
  description :: string
  detail :: string
  picked :: bool

record Selection =
  anchor :: nat
  active :: nat

text \<open>
  A text editor: its document as one string and its selection as two offsets into it.
\<close>

record TextEditor =
  document :: string
  selection :: Selection

datatype client = HostModel | ExternalApi

text \<open>
  What an invocation does to the outside, in order. \<open>Invoke\<close> marks the entry into one
  of the two provider clients; the others are calls to the application.
\<close>

datatype event =
    Invoke client
  | SelectChatModels "string option"
  | SendRequest LanguageModelChat "string list" CancellationToken
  | Fetch HttpRequest
  | ShowInputBox
  | ShowWarningMessage string
  | ShowErrorMessage string "string list"
  | ShowInformationMessage string "string list"
  | ShowQuickPick "QuickPickItem list"
  | ClipboardRead
  | ClipboardWrite string
  | EditorReplace Selection string
  | EditorInsert nat string
  | GlobalStateUpdate "HistoryEntry list"
  | OpenTextDocument string
  | ExecuteCommand string "string list"

text \<open>
  The state of the application around one command: the settings, the built-in system
  prompt (its text holds code units above 255; nothing depends on it), the host's model
  API, the two HTTP endpoints, the persisted history, the clipboard, the active editor,
  the clock, what the user answers, the progress token, and the trace of events so far.
\<close>

record World =
  config :: Config
  SYSTEM_PROMPT :: string
  lm :: "LmApi option"
  fetch_openai :: "HttpRequest \<Rightarrow> exn + OpenAIData Response"
  fetch_anthropic :: "HttpRequest \<Rightarrow> exn + AnthropicData Response"
  globalState_history :: "HistoryEntry list option"
  clipboard :: string
  activeTextEditor :: "TextEditor option"
  now :: int
  toLocaleString :: "int \<Rightarrow> string"
  inputBox_answer :: "string option"
  message_answer :: "string \<Rightarrow> string list \<Rightarrow> string option"
  quickPick_answer :: "QuickPickItem list \<Rightarrow> nat option"
  progress_token :: CancellationToken
  trace :: "event list"

text \<open>
  An asynchronous function: from the world to a value or a thrown error, and the world
  after it.
\<close>

type_synonym 'a io = "World \<Rightarrow> (exn + 'a) \<times> World"

definition io_return :: "'a \<Rightarrow> 'a io" where
  "io_return x w = (Inr x, w)"

definition io_throw :: "exn \<Rightarrow> 'a io" where
  "io_throw e w = (Inl e, w)"

definition io_bind :: "'a io \<Rightarrow> ('a \<Rightarrow> 'b io) \<Rightarrow> 'b io" where
  "io_bind m f w = (case m w of (Inl e, w') \<Rightarrow> (Inl e, w') | (Inr x, w') \<Rightarrow> f x w')"

definition io_catch :: "'a io \<Rightarrow> (exn \<Rightarrow> 'a io) \<Rightarrow> 'a io" where
  "io_catch m h w = (case m w of (Inl e, w') \<Rightarrow> h e w' | (Inr x, w') \<Rightarrow> (Inr x, w'))"

definition emit :: "event \<Rightarrow> unit io" where
  "emit ev w = (Inr (), w\<lparr>trace := trace w @ [ev]\<rparr>)"

definition lift :: "exn + 'a \<Rightarrow> 'a io" where
  "lift r w = (r, w)"

section \<open>llmService.ts\<close>

datatype Source = Src_vscode_lm | Src_openai | Src_anthropic

fun source_name :: "Source \<Rightarrow> string" where
  "source_name Src_vscode_lm = ''vscode.lm''"
| "source_name Src_openai = ''openai''"
| "source_name Src_anthropic = ''anthropic''"

datatype UpscaleResult = Success string Source | Failure string

definition getEffectiveSystemPrompt :: "World \<Rightarrow> string" where
  "getEffectiveSystemPrompt w =
     (let customPrompt = systemPrompt (config w)
      in if truthy customPrompt \<and> trim (the customPrompt) \<noteq> []
         then trim (the customPrompt) else SYSTEM_PROMPT w)"

text \<open>The text of the one user message \<open>tryVscodeLm\<close> sends.\<close>

definition user_message :: "string \<Rightarrow> string \<Rightarrow> string" where
  "user_message sysPrompt input =
     sysPrompt @ [CHR 0x0A, CHR 0x0A] @ ''---'' @ [CHR 0x0A, CHR 0x0A]
       @ ''User's prompt to upscale:'' @ [CHR 0x0A] @ input"

text \<open>The body of the \<open>try\<close> block of \<open>tryVscodeLm\<close>.\<close>

definition tryVscodeLm_body ::
  "string \<Rightarrow> string \<Rightarrow> CancellationToken option \<Rightarrow> UpscaleResult io" where
  "tryVscodeLm_body input sysPrompt cancellationToken =
     (\<lambda>w. (case lm w of
        None \<Rightarrow> io_return (Failure ''vscode.lm API not available'')
      | Some api \<Rightarrow>
          io_bind (emit (SelectChatModels (Some ''gpt-4o''))) (\<lambda>_.
          io_bind (lift (selectChatModels api (Some ''gpt-4o''))) (\<lambda>models0.
          io_bind (if length models0 = 0
                   then io_bind (emit (SelectChatModels None)) (\<lambda>_.
                        lift (selectChatModels api None))
                   else io_return models0) (\<lambda>models.
          if length models = 0
          then io_return (Failure ''No language models available via vscode.lm'')
          else
            (let mdl = hd models;
                 messages = [user_message sysPrompt input];
                 token = (case cancellationToken of
                            Some t \<Rightarrow> t
                          | None \<Rightarrow> \<lparr>isCancellationRequested = False\<rparr>)
             in io_bind (emit (SendRequest mdl messages token)) (\<lambda>_.
                io_bind (lift (sendRequest mdl messages token)) (\<lambda>response.
                case stream_error response of
                  Some e \<Rightarrow> io_throw e
                | None \<Rightarrow>
                    (let result = concat (chunks response)
                     in if trim result = []
                        then io_return (Failure ''Empty response from vscode.lm'')
                        else io_return (Success (trim result) Src_vscode_lm)))))))))
      w)"

definition tryVscodeLm ::
  "string \<Rightarrow> string \<Rightarrow> CancellationToken option \<Rightarrow> UpscaleResult io" where
  "tryVscodeLm input sysPrompt cancellationToken =
     io_bind (emit (Invoke HostModel)) (\<lambda>_.
     io_catch (tryVscodeLm_body input sysPrompt cancellationToken)
       (\<lambda>err. io_return (Failure (''vscode.lm error: '' @ message err))))"

text \<open>The request \<open>callOpenAI\<close> passes to \<open>fetch\<close>.\<close>

definition openai_request :: "string \<Rightarrow> string \<Rightarrow> string \<Rightarrow> string \<Rightarrow> HttpRequest" where
  "openai_request key mdl input sysPrompt =
     \<lparr>url = API_ENDPOINTS openai, http_method = ''POST'',
      headers = [(''Content-Type'', ''application/json''),
                 (''Authorization'', ''Bearer '' @ key)],
      body = JObject
        [(''model'', JString mdl),
         (''messages'', JArray
            [JObject [(''role'', JString ''system''), (''content'', JString sysPrompt)],
             JObject [(''role'', JString ''user''), (''content'', JString input)]]),
         (''temperature'', JNumber (7 / 10))]\<rparr>"

text \<open>\<open>data.choices?.[0]?.message?.content\<close>\<close>

definition first_choice_content :: "OpenAIData \<Rightarrow> string option" where
  "first_choice_content data =
     (case choices data of
        None \<Rightarrow> None
      | Some [] \<Rightarrow> None
      | Some (c # _) \<Rightarrow> (case message_of c of None \<Rightarrow> None | Some m \<Rightarrow> content m))"

definition callOpenAI :: "string \<Rightarrow> string \<Rightarrow> string \<Rightarrow> string \<Rightarrow> UpscaleResult io" where
  "callOpenAI key mdl input sysPrompt =
     io_bind (emit (Fetch (openai_request key mdl input sysPrompt))) (\<lambda>_.
     io_bind (\<lambda>w. lift (fetch_openai w (openai_request key mdl input sysPrompt)) w)
       (\<lambda>response.
     if \<not> ok response
     then io_bind (lift (body_text response)) (\<lambda>errorText.
          io_throw (Error (''HTTP '' @ decimal (status response) @ '': '' @ errorText)))
     else
       io_bind (lift (body_json response)) (\<lambda>data.
       (let content0 = first_choice_content data
        in if \<not> truthy content0
           then io_throw (Error ''No content in OpenAI response'')
           else io_return (Success (trim (the content0)) Src_openai)))))"

text \<open>The request \<open>callAnthropic\<close> passes to \<open>fetch\<close>.\<close>

definition anthropic_request :: "string \<Rightarrow> string \<Rightarrow> string \<Rightarrow> string \<Rightarrow> HttpRequest" where
  "anthropic_request key mdl input sysPrompt =
     \<lparr>url = API_ENDPOINTS anthropic, http_method = ''POST'',
      headers = [(''Content-Type'', ''application/json''),
                 (''x-api-key'', key),
                 (''anthropic-version'', ''2023-06-01'')],
      body = JObject
        [(''model'', JString mdl),
         (''max_tokens'', JNumber 4096),
         (''system'', JString sysPrompt),
         (''messages'', JArray
            [JObject [(''role'', JString ''user''), (''content'', JString input)]])]\<rparr>"

text \<open>
  \<open>data.content?.find((block) => block.type === 'text')\<close> and then \<open>textBlock?.text\<close>
\<close>

definition first_text_block :: "AnthropicData \<Rightarrow> string option" where
  "first_text_block data =
     (let textBlock =
            (case content_blocks data of
               None \<Rightarrow> None
             | Some blocks \<Rightarrow> List.find (\<lambda>block. block_type block = ''text'') blocks)
      in case textBlock of None \<Rightarrow> None | Some b \<Rightarrow> block_text b)"

definition callAnthropic :: "string \<Rightarrow> string \<Rightarrow> string \<Rightarrow> string \<Rightarrow> UpscaleResult io" where
  "callAnthropic key mdl input sysPrompt =
     io_bind (emit (Fetch (anthropic_request key mdl input sysPrompt))) (\<lambda>_.
     io_bind (\<lambda>w. lift (fetch_anthropic w (anthropic_request key mdl input sysPrompt)) w)
       (\<lambda>response.
     if \<not> ok response
     then io_bind (lift (body_text response)) (\<lambda>errorText.
          io_throw (Error (''HTTP '' @ decimal (status response) @ '': '' @ errorText)))
     else
       io_bind (lift (body_json response)) (\<lambda>data.
       (let text0 = first_text_block data
        in if \<not> truthy text0
           then io_throw (Error ''No text content in Anthropic response'')
           else io_return (Success (trim (the text0)) Src_anthropic)))))"

definition tryExternalApi :: "string \<Rightarrow> string \<Rightarrow> UpscaleResult io" where
  "tryExternalApi input sysPrompt =
     io_bind (emit (Invoke ExternalApi)) (\<lambda>_.
     (\<lambda>w.
       (let key = apiKey (config w);
            provider = (case apiProvider (config w) of Some p \<Rightarrow> p | None \<Rightarrow> openai);
            customModel = model (config w);
            mdl = (if truthy customModel then the customModel else DEFAULT_MODELS provider)
        in if \<not> truthy key
           then io_return (Failure ''No API key configured. Set gigo.apiKey in settings.'')
           else
             io_catch
               (if provider = openai
                then callOpenAI (the key) mdl input sysPrompt
                else callAnthropic (the key) mdl input sysPrompt)
               (\<lambda>err. io_return
                  (Failure (provider_name provider @ '' API error: '' @ message err))))
       w))"

definition upscalePrompt :: "string \<Rightarrow> CancellationToken option \<Rightarrow> UpscaleResult io" where
  "upscalePrompt input cancellationToken =
     (\<lambda>w.
       (let sysPrompt = getEffectiveSystemPrompt w
        in io_bind (tryVscodeLm input sysPrompt cancellationToken) (\<lambda>vscodeLmResult.
           case vscodeLmResult of
             Success t s \<Rightarrow> io_return vscodeLmResult
           | Failure vscodeLmError \<Rightarrow>
               io_bind (tryExternalApi input sysPrompt) (\<lambda>externalResult.
               case externalResult of
                 Success t s \<Rightarrow> io_return externalResult
               | Failure externalError \<Rightarrow>
                   io_return (Failure (''vscode.lm: '' @ vscodeLmError @ [CHR 0x0A]
                                        @ ''External API: '' @ externalError)))))
       w)"

section \<open>extension.ts: history\<close>

definition getHistorySize :: "World \<Rightarrow> int" where
  "getHistorySize w = (case historySize (config w) of Some n \<Rightarrow> n | None \<Rightarrow> 5)"

definition getHistory :: "World \<Rightarrow> HistoryEntry list" where
  "getHistory w = (case globalState_history w of Some h \<Rightarrow> h | None \<Rightarrow> [])"

text \<open>
  The array \<open>getHistory\<close> returns is the stored array itself when one is stored, and a
  fresh empty array otherwise. A change made to that array in place is a change of the
  stored history in the first case and of nothing in the second; \<open>alias_history h\<close> is
  the world after the array has been changed in place to \<open>h\<close>.
\<close>

definition alias_history :: "HistoryEntry list \<Rightarrow> World \<Rightarrow> World" where
  "alias_history h w =
     (case globalState_history w of
        Some _ \<Rightarrow> w\<lparr>globalState_history := Some h\<rparr>
      | None \<Rightarrow> w)"

text \<open>\<open>history.unshift(entry)\<close>, in place.\<close>

definition unshift :: "HistoryEntry \<Rightarrow> HistoryEntry list \<Rightarrow> HistoryEntry list io" where
  "unshift entry history w = (Inr (entry # history), alias_history (entry # history) w)"

text \<open>
  \<open>history.length = n\<close>, in place: a negative \<open>n\<close> throws a RangeError and leaves the
  array as it is, a smaller \<open>n\<close> truncates. An array is shorter than \<open>2 ^ 32\<close>, so the
  assignment guarded by \<open>history.length > maxSize\<close> never sees a larger \<open>n\<close>, and never
  extends.
\<close>

definition set_length :: "int \<Rightarrow> HistoryEntry list \<Rightarrow> HistoryEntry list io" where
  "set_length n history w =
     (if n < 0 then (Inl (RangeError ''Invalid array length''), w)
      else (Inr (take (nat n) history), alias_history (take (nat n) history) w))"

definition globalState_update :: "HistoryEntry list \<Rightarrow> unit io" where
  "globalState_update h w =
     (Inr (), w\<lparr>globalState_history := Some h, trace := trace w @ [GlobalStateUpdate h]\<rparr>)"

definition addToHistory :: "string \<Rightarrow> string \<Rightarrow> unit io" where
  "addToHistory orig ups =
     (\<lambda>w.
       (let history = getHistory w;
            maxSize = getHistorySize w;
            entry = \<lparr>original = orig, upscaled = ups, timestamp = now w\<rparr>
        in io_bind (unshift entry history) (\<lambda>history1.
           io_bind (if int (length history1) > maxSize
                    then set_length maxSize history1
                    else io_return history1) (\<lambda>history2.
           globalState_update history2)))
       w)"

definition formatTimestamp :: "World \<Rightarrow> int \<Rightarrow> string" where
  "formatTimestamp w t = toLocaleString w t"

text \<open>\<open>text.replace(/\s+/g, ' ')\<close>: every run of white space becomes one space.\<close>

function collapse_ws :: "string \<Rightarrow> string" where
  "collapse_ws [] = []"
| "collapse_ws (c # cs) =
     (if is_ws c then CHR '' '' # collapse_ws (dropWhile is_ws cs)
      else c # collapse_ws cs)"
  by pat_completeness auto
termination
  by (relation "measure length") (auto simp: length_dropWhile_le less_Suc_eq_le)

text \<open>\<open>preview\<close> is called with the lengths 60 and 80 only.\<close>

definition preview :: "string \<Rightarrow> nat \<Rightarrow> string" where
  "preview txt maxLength =
     (let oneLine = trim (collapse_ws txt)
      in if length oneLine \<le> maxLength then oneLine
         else take (maxLength - 3) oneLine @ ''...'')"

section \<open>extension.ts: the application's calls\<close>

definition showInputBox :: "string option io" where
  "showInputBox w = (Inr (inputBox_answer w), w\<lparr>trace := trace w @ [ShowInputBox]\<rparr>)"

definition showWarningMessage :: "string \<Rightarrow> unit io" where
  "showWarningMessage msg = emit (ShowWarningMessage msg)"

definition showErrorMessage :: "string \<Rightarrow> string list \<Rightarrow> string option io" where
  "showErrorMessage msg items w =
     (Inr (message_answer w msg items), w\<lparr>trace := trace w @ [ShowErrorMessage msg items]\<rparr>)"

definition showInformationMessage :: "string \<Rightarrow> string list \<Rightarrow> string option io" where
  "showInformationMessage msg items w =
     (Inr (message_answer w msg items),
      w\<lparr>trace := trace w @ [ShowInformationMessage msg items]\<rparr>)"

text \<open>\<open>showQuickPick\<close> resolves to one of the items, here by its index, or to nothing.\<close>

definition showQuickPick :: "QuickPickItem list \<Rightarrow> nat option io" where
  "showQuickPick items w =
     (Inr (case quickPick_answer w items of
             Some i \<Rightarrow> if i < length items then Some i else None
           | None \<Rightarrow> None),
      w\<lparr>trace := trace w @ [ShowQuickPick items]\<rparr>)"

definition clipboard_readText :: "string io" where
  "clipboard_readText w = (Inr (clipboard w), w\<lparr>trace := trace w @ [ClipboardRead]\<rparr>)"

definition clipboard_writeText :: "string \<Rightarrow> unit io" where
  "clipboard_writeText txt w =
     (Inr (), w\<lparr>clipboard := txt, trace := trace w @ [ClipboardWrite txt]\<rparr>)"

definition sel_start :: "Selection \<Rightarrow> nat" where
  "sel_start s = min (anchor s) (active s)"

definition sel_end :: "Selection \<Rightarrow> nat" where
  "sel_end s = max (anchor s) (active s)"

definition isEmpty :: "Selection \<Rightarrow> bool" where
  "isEmpty s = (anchor s = active s)"

definition getText :: "string \<Rightarrow> Selection \<Rightarrow> string" where
  "getText doc s = take (sel_end s - sel_start s) (drop (sel_start s) doc)"

text \<open>
  \<open>editor.edit\<close> with one \<open>replace\<close> or one \<open>insert\<close>, on the active editor; without an
  editor nothing changes.
\<close>

definition edit_replace :: "Selection \<Rightarrow> string \<Rightarrow> unit io" where
  "edit_replace s txt w =
     (Inr (),
      w\<lparr>activeTextEditor :=
           map_option (\<lambda>e. e\<lparr>document :=
             take (sel_start s) (document e) @ txt @ drop (sel_end s) (document e)\<rparr>)
             (activeTextEditor w),
        trace := trace w @ [EditorReplace s txt]\<rparr>)"

definition edit_insert :: "nat \<Rightarrow> string \<Rightarrow> unit io" where
  "edit_insert pos txt w =
     (Inr (),
      w\<lparr>activeTextEditor :=
           map_option (\<lambda>e. e\<lparr>document :=
             take pos (document e) @ txt @ drop pos (document e)\<rparr>)
             (activeTextEditor w),
        trace := trace w @ [EditorInsert pos txt]\<rparr>)"

text \<open>\<open>openTextDocument\<close> followed by \<open>showTextDocument\<close>: the new document is active.\<close>

definition openAndShowTextDocument :: "string \<Rightarrow> unit io" where
  "openAndShowTextDocument txt w =
     (Inr (),
      w\<lparr>activeTextEditor := Some \<lparr>document = txt, selection = \<lparr>anchor = 0, active = 0\<rparr>\<rparr>,
        trace := trace w @ [OpenTextDocument txt]\<rparr>)"

definition executeCommand :: "string \<Rightarrow> string list \<Rightarrow> unit io" where
  "executeCommand c args = emit (ExecuteCommand c args)"

definition openSettings :: "unit io" where
  "openSettings = executeCommand ''workbench.action.openSettings'' [''@ext:gigo.gigo'']"

section \<open>extension.ts: the commands\<close>

text \<open>
  The world has one editor; the editor of an \<open>EditorContext\<close> is that editor, as it was
  when the command started.
\<close>

record EditorContext =
  ctx_editor :: TextEditor
  ctx_selection :: Selection

definition both_document :: "string \<Rightarrow> string \<Rightarrow> string" where
  "both_document orig ups =
     ''# Original Prompt'' @ [CHR 0x0A, CHR 0x0A] @ orig @ [CHR 0x0A, CHR 0x0A] @ ''---''
       @ [CHR 0x0A, CHR 0x0A] @ ''# Upscaled Version'' @ [CHR 0x0A, CHR 0x0A] @ ups"

text \<open>
  \<open>withProgress\<close> shows a cancellable notification while its callback runs and hands
  it the token; the model is the callback, reading the token from the world. In editor
  mode the last notification is not awaited: its answer, if it is \<open>Restore Original\<close>,
  starts the restore command, which is an invocation of its own.
\<close>

definition performUpscale :: "string \<Rightarrow> EditorContext option \<Rightarrow> bool \<Rightarrow> unit io" where
  "performUpscale inputText editorContext isClipboardMode =
     (\<lambda>w.
       (let token = progress_token w
        in io_bind (upscalePrompt inputText (Some token)) (\<lambda>result.
           if isCancellationRequested token then io_return ()
           else
             (case result of
                Failure err \<Rightarrow>
                  io_bind (showErrorMessage (''GIGO: '' @ err)
                             [''Open Settings'', ''Dismiss'']) (\<lambda>action.
                  if action = Some ''Open Settings'' then openSettings else io_return ())
              | Success upscaledText src \<Rightarrow>
                  io_bind (addToHistory inputText upscaledText) (\<lambda>_.
                  (case editorContext of
                     Some ctx \<Rightarrow>
                       io_bind (edit_replace (ctx_selection ctx) upscaledText) (\<lambda>_.
                       io_bind (showInformationMessage
                                  (''GIGO: Prompt upscaled via '' @ source_name src)
                                  [''Restore Original'']) (\<lambda>action.
                       if action = Some ''Restore Original''
                       then executeCommand ''gigo.restoreOriginal'' []
                       else io_return ()))
                   | None \<Rightarrow>
                       if isClipboardMode
                       then
                         io_bind (clipboard_writeText upscaledText) (\<lambda>_.
                         io_bind (showInformationMessage
                                    (''GIGO: Upscaled prompt written to clipboard (via ''
                                       @ source_name src @ '')'')
                                    [''View Original'', ''View Both'']) (\<lambda>action.
                         if action = Some ''View Original''
                         then
                           io_bind (clipboard_writeText inputText) (\<lambda>_.
                           io_bind (showInformationMessage
                                      ''GIGO: Original restored to clipboard'' []) (\<lambda>_.
                           io_return ()))
                         else if action = Some ''View Both''
                         then openAndShowTextDocument (both_document inputText upscaledText)
                         else io_return ()))
                       else
                         io_bind (clipboard_writeText upscaledText) (\<lambda>_.
                         io_bind (showInformationMessage
                                    (''GIGO: Upscaled prompt copied to clipboard (via ''
                                       @ source_name src @ '')'')
                                    [''View Full Text'']) (\<lambda>action.
                         if action = Some ''View Full Text''
                         then openAndShowTextDocument upscaledText
                         else io_return ())))))))
       w)"

definition executeUpscale :: "unit io" where
  "executeUpscale =
     (\<lambda>w.
       (let editor = activeTextEditor w;
            sel = map_option selection editor;
            selectedText = map_option (\<lambda>e. getText (document e) (selection e)) editor
        in if truthy selectedText \<and> length (trim (the selectedText)) > 0
           then performUpscale (the selectedText)
                  (Some \<lparr>ctx_editor = the editor, ctx_selection = the sel\<rparr>) False
           else
             io_bind showInputBox (\<lambda>userInput.
             if \<not> truthy userInput \<or> length (trim (the userInput)) = 0
             then io_return ()
             else performUpscale (the userInput) None False))
       w)"

definition executeUpscaleClipboard :: "unit io" where
  "executeUpscaleClipboard =
     io_bind clipboard_readText (\<lambda>clipboardText.
     if clipboardText = [] \<or> length (trim clipboardText) = 0
     then showWarningMessage ''GIGO: Clipboard is empty''
     else performUpscale clipboardText None True)"

definition executeRestoreOriginal :: "unit io" where
  "executeRestoreOriginal =
     (\<lambda>w.
       (let history = getHistory w
        in if length history = 0
           then io_bind (showInformationMessage ''GIGO: No history available'' []) (\<lambda>_.
                io_return ())
           else
             (let items = map (\<lambda>(entry, index).
                            \<lparr>label = preview (original entry) 60,
                             description = formatTimestamp w (timestamp entry),
                             detail = ''Upscaled to: '' @ preview (upscaled entry) 80,
                             picked = (index = (0::nat))\<rparr>)
                          (zip history [0 ..< length history])
              in io_bind (showQuickPick items) (\<lambda>selected.
                 case selected of
                   None \<Rightarrow> io_return ()
                 | Some index \<Rightarrow>
                     (\<lambda>w1.
                       (let entry = history ! index
                        in case activeTextEditor w1 of
                             Some editor \<Rightarrow>
                               if \<not> isEmpty (selection editor)
                               then
                                 io_bind (edit_replace (selection editor) (original entry))
                                   (\<lambda>_.
                                 io_bind (showInformationMessage
                                            ''GIGO: Original restored'' []) (\<lambda>_.
                                 io_return ()))
                               else
                                 io_bind (edit_insert (active (selection editor))
                                            (original entry)) (\<lambda>_.
                                 io_bind (showInformationMessage
                                            ''GIGO: Original inserted at cursor'' []) (\<lambda>_.
                                 io_return ()))
                           | None \<Rightarrow>
                               io_bind (clipboard_writeText (original entry)) (\<lambda>_.
                               io_bind (showInformationMessage
                                          ''GIGO: Original copied to clipboard (no editor open)''
                                          [''View Both'']) (\<lambda>action.
                               if action = Some ''View Both''
                               then openAndShowTextDocument
                                      (both_document (original entry) (upscaled entry))
                               else io_return ())))
                       w1))))
       w)"

section \<open>Notions for the properties\<close>

text \<open>The events an invocation started in \<open>w\<close> has added when it is in \<open>w'\<close>.\<close>

definition new_events :: "World \<Rightarrow> World \<Rightarrow> event list" where
  "new_events w w' = drop (length (trace w)) (trace w')"

fun is_Fetch :: "event \<Rightarrow> bool" where
  "is_Fetch (Fetch _) = True"
| "is_Fetch _ = False"

text \<open>An event of the provider clients: these change nothing but the trace.\<close>

fun provider_event :: "event \<Rightarrow> bool" where
  "provider_event (Invoke _) = True"
| "provider_event (SelectChatModels _) = True"
| "provider_event (SendRequest _ _ _) = True"
| "provider_event (Fetch _) = True"
| "provider_event _ = False"

text \<open>An event that writes: to the history, the clipboard or the editor.\<close>

fun write_event :: "event \<Rightarrow> bool" where
  "write_event (GlobalStateUpdate _) = True"
| "write_event (ClipboardWrite _) = True"
| "write_event (EditorReplace _ _) = True"
| "write_event (EditorInsert _ _) = True"
| "write_event _ = False"

text \<open>An event of the host model client after its entry.\<close>

fun lm_event :: "event \<Rightarrow> bool" where
  "lm_event (SelectChatModels _) = True"
| "lm_event (SendRequest _ _ _) = True"
| "lm_event _ = False"

text \<open>
  \<open>io_post P Q m\<close>: from every world, \<open>m\<close> changes nothing but the trace, the events it
  appends satisfy \<open>P\<close> and its outcome satisfies \<open>Q\<close>.
\<close>

definition io_post :: "(event list \<Rightarrow> bool) \<Rightarrow> (exn + 'a \<Rightarrow> bool) \<Rightarrow> 'a io \<Rightarrow> bool" where
  "io_post P Q m =
     (\<forall>w. \<exists>r evs. m w = (r, w\<lparr>trace := trace w @ evs\<rparr>) \<and> P evs \<and> Q r)"

text \<open>What each client may return: a success only with its own source tag.\<close>

fun host_result :: "exn + UpscaleResult \<Rightarrow> bool" where
  "host_result (Inr (Success t s)) = (s = Src_vscode_lm)"
| "host_result _ = True"

fun openai_result :: "exn + UpscaleResult \<Rightarrow> bool" where
  "openai_result (Inr (Success t s)) = (s = Src_openai \<and> trim t = t)"
| "openai_result _ = True"

fun anthropic_result :: "exn + UpscaleResult \<Rightarrow> bool" where
  "anthropic_result (Inr (Success t s)) = (s = Src_anthropic \<and> trim t = t)"
| "anthropic_result _ = True"

fun external_result :: "exn + UpscaleResult \<Rightarrow> bool" where
  "external_result (Inr (Success t s)) = ((s = Src_openai \<or> s = Src_anthropic) \<and> trim t = t)"
| "external_result _ = True"

text \<open>
  The text carried by the reply to a request of the trace, in a world: the text streamed
  for a \<open>sendRequest\<close>, the content of the first choice, the text of the first text block.
\<close>

fun reply_text :: "World \<Rightarrow> event \<Rightarrow> string option" where
  "reply_text w (SendRequest mdl messages token) =
     (case sendRequest mdl messages token of
        Inl _ \<Rightarrow> None
      | Inr response \<Rightarrow>
          (case stream_error response of
             Some _ \<Rightarrow> None
           | None \<Rightarrow> Some (concat (chunks response))))"
| "reply_text w (Fetch request) =
     (if url request = API_ENDPOINTS openai
      then (case fetch_openai w request of
              Inl _ \<Rightarrow> None
            | Inr response \<Rightarrow>
                (case body_json response of
                   Inl _ \<Rightarrow> None
                 | Inr data \<Rightarrow> first_choice_content data))
      else (case fetch_anthropic w request of
              Inl _ \<Rightarrow> None
            | Inr response \<Rightarrow>
                (case body_json response of
                   Inl _ \<Rightarrow> None
                 | Inr data \<Rightarrow> first_text_block data)))"
| "reply_text w _ = None"

text \<open>The text an event writes to the clipboard or into the editor.\<close>

fun written :: "event \<Rightarrow> string option" where
  "written (ClipboardWrite t) = Some t"
| "written (EditorReplace _ t) = Some t"
| "written (EditorInsert _ t) = Some t"
| "written _ = None"

text \<open>A text that is there and is not empty after trimming.\<close>

definition nonblank :: "string option \<Rightarrow> bool" where
  "nonblank s = (truthy s \<and> length (trim (the s)) > 0)"

text \<open>The text of the active editor's selection, as \<open>executeUpscale\<close> reads it.\<close>

definition selectedText :: "World \<Rightarrow> string option" where
  "selectedText w = map_option (\<lambda>e. getText (document e) (selection e)) (activeTextEditor w)"

text \<open>
  A sequence of inserts, each given as the original, the upscaled text and the time at
  which it happens.
\<close>

fun inserts :: "(string \<times> string \<times> int) list \<Rightarrow> unit io" where
  "inserts [] = io_return ()"
| "inserts ((orig, ups, t) # es) =
     io_bind (\<lambda>w. addToHistory orig ups (w\<lparr>now := t\<rparr>)) (\<lambda>_. inserts es)"

text \<open>The entry an insert builds from the original, the upscaled text and the time.\<close>

definition entry_of :: "string \<times> string \<times> int \<Rightarrow> HistoryEntry" where
  "entry_of e =
     (case e of (orig, ups, t) \<Rightarrow> \<lparr>original = orig, upscaled = ups, timestamp = t\<rparr>)"

text \<open>The user sets \<open>gigo.historySize\<close> to \<open>n\<close>.\<close>

definition configure_historySize :: "int \<Rightarrow> World \<Rightarrow> World" where
  "configure_historySize n w = w\<lparr>config := (config w)\<lparr>historySize := Some n\<rparr>\<rparr>"

section \<open>Concrete worlds\<close>

text \<open>
  A world with nothing configured, no host model API, no network, no editor, an empty
  clipboard and a user who dismisses every prompt.
\<close>

definition world0 :: World where
  "world0 =
     \<lparr>config = \<lparr>apiKey = None, apiProvider = None, model = None, systemPrompt = None,
                historySize = None\<rparr>,
      SYSTEM_PROMPT = ''Rewrite this:'',
      lm = None,
      fetch_openai = (\<lambda>_. Inl (Error ''fetch failed'')),
      fetch_anthropic = (\<lambda>_. Inl (Error ''fetch failed'')),
      globalState_history = None,
      clipboard = [],
      activeTextEditor = None,
      now = 0,
      toLocaleString = (\<lambda>_. []),
      inputBox_answer = None,
      message_answer = (\<lambda>_ _. None),
      quickPick_answer = (\<lambda>_. None),
      progress_token = \<lparr>isCancellationRequested = False\<rparr>,
      trace = []\<rparr>"

definition three_inserts :: "(string \<times> string \<times> int) list" where
  "three_inserts = [(''a'', ''A'', 1), (''b'', ''B'', 2), (''c'', ''C'', 3)]"

text \<open>A host model that streams a reply in two chunks, with white space around it.\<close>

definition gold_model :: LanguageModelChat where
  "gold_model = LanguageModelChat (\<lambda>messages token.
     Inr \<lparr>chunks = ['' Investigate and resolve'', '' the reported API issue. ''], stream_error = None\<rparr>)"

text \<open>A host model whose request fails when the token is cancelled.\<close>

definition cancellable_model :: LanguageModelChat where
  "cancellable_model = LanguageModelChat (\<lambda>messages token.
     if isCancellationRequested token then Inl (Error ''Canceled'')
     else Inr \<lparr>chunks = ['' Investigate and resolve'', '' the reported API issue. ''], stream_error = None\<rparr>)"

text \<open>A 200 response of each endpoint carrying the given text.\<close>

definition openai_response :: "string \<Rightarrow> OpenAIData Response" where
  "openai_response txt =
     \<lparr>ok = True, status = 200, body_text = Inr [],
      body_json = Inr \<lparr>choices = Some [\<lparr>message_of = Some \<lparr>content = Some txt\<rparr>\<rparr>]\<rparr>\<rparr>"

definition anthropic_response :: "string \<Rightarrow> AnthropicData Response" where
  "anthropic_response txt =
     \<lparr>ok = True, status = 200, body_text = Inr [],
      body_json = Inr \<lparr>content_blocks = Some [\<lparr>block_type = ''text'', block_text = Some txt\<rparr>]\<rparr>\<rparr>"

text \<open>The host model answers; nothing else is configured.\<close>

definition world_host_ok :: World where
  "world_host_ok = world0\<lparr>lm := Some \<lparr>selectChatModels = (\<lambda>family. Inr [gold_model])\<rparr>\<rparr>"

text \<open>No host model API; an API key is set and the OpenAI endpoint answers.\<close>

definition world_external_ok :: World where
  "world_external_ok =
     world0\<lparr>config := (config world0)\<lparr>apiKey := Some ''sk-test''\<rparr>,
            fetch_openai := (\<lambda>request. Inr (openai_response '' Gold prompt ''))\<rparr>"

definition cancelled_token :: CancellationToken where
  "cancelled_token = \<lparr>isCancellationRequested = True\<rparr>"

text \<open>
  The user has cancelled: the host request fails for it, the OpenAI endpoint would answer.
\<close>

definition world_cancelled :: World where
  "world_cancelled =
     world_external_ok\<lparr>lm := Some \<lparr>selectChatModels = (\<lambda>family. Inr [cancellable_model])\<rparr>,
                       progress_token := cancelled_token\<rparr>"

text \<open>An API key is set and the chosen endpoint answers with a single space as its text.\<close>

definition world_blank_content :: "ApiProvider \<Rightarrow> World" where
  "world_blank_content p =
     world0\<lparr>config := (config world0)\<lparr>apiKey := Some ''sk-test'', apiProvider := Some p\<rparr>,
            fetch_openai := (\<lambda>request. Inr (openai_response '' '')),
            fetch_anthropic := (\<lambda>request. Inr (anthropic_response '' ''))\<rparr>"

text \<open>
  The host model answers and an editor is open whose selection is the whole document,
  a prompt with white space around it.
\<close>

definition world_selection :: World where
  "world_selection =
     world_host_ok\<lparr>activeTextEditor :=
       Some \<lparr>document = ''  yo fix this api '', selection = \<lparr>anchor = 0, active = 18\<rparr>\<rparr>\<rparr>"

text \<open>No editor is open, the clipboard holds a prompt, the OpenAI endpoint would answer.\<close>

definition world_clipboard_only :: World where
  "world_clipboard_only = world_external_ok\<lparr>clipboard := ''refactor this''\<rparr>"

text \<open>A later world: the same, but the user picks the first item of a quick pick.\<close>

definition picks_first :: "World \<Rightarrow> World" where
  "picks_first w = w\<lparr>quickPick_answer := (\<lambda>items. Some 0)\<rparr>"

text \<open>The OpenAI endpoint would answer, no editor is open and the user types a prompt.\<close>

definition world_typed :: World where
  "world_typed = world_external_ok\<lparr>inputBox_answer := Some '' add tests ''\<rparr>"

text \<open>The selection of \<open>world_selection\<close>, with the history size set to 0.\<close>

definition world_selection_size0 :: World where
  "world_selection_size0 = configure_historySize 0 world_selection"

section \<open>Collected definitions\<close>

lemmas io_defs = io_bind_def io_catch_def io_return_def io_throw_def emit_def lift_def

lemmas llm_defs = upscalePrompt_def tryVscodeLm_def tryVscodeLm_body_def tryExternalApi_def
  callOpenAI_def callAnthropic_def getEffectiveSystemPrompt_def first_choice_content_def
  first_text_block_def Let_def

lemmas ui_defs = showInputBox_def showWarningMessage_def showErrorMessage_def
  showInformationMessage_def showQuickPick_def clipboard_readText_def clipboard_writeText_def
  edit_replace_def edit_insert_def openAndShowTextDocument_def executeCommand_def
  openSettings_def

lemmas world_defs = world0_def world_host_ok_def world_external_ok_def world_cancelled_def
  cancelled_token_def gold_model_def cancellable_model_def openai_response_def
  anthropic_response_def

section \<open>Trimming\<close>

lemma dropWhile_idem: "dropWhile P (dropWhile P xs) = dropWhile P xs"
  by (induction xs) auto

lemma trim_trim: "trim (trim s) = trim s"
proof -
  have a: "dropWhile is_ws (rev (dropWhile is_ws (rev ys))) = rev (dropWhile is_ws (rev ys))"
    if "ys = [] \<or> \<not> is_ws (hd ys)" for ys
  proof (cases "dropWhile is_ws (rev ys) = []")
    case True
    show ?thesis unfolding True by simp
  next
    case False
    then have "rev ys \<noteq> []" by auto
    then have ne: "ys \<noteq> []" by simp
    with that have h: "\<not> is_ws (hd ys)" by simp
    obtain zs where z: "dropWhile is_ws (rev ys) = zs" by simp
    from False z have "zs \<noteq> []" by simp
    have "\<exists>us. rev ys = us @ zs" using z by (metis takeWhile_dropWhile_id)
    then obtain us where "rev ys = us @ zs" by blast
    then have "ys = rev zs @ rev us" by (metis rev_append rev_rev_ident)
    then have "hd (rev zs) = hd ys" using \<open>zs \<noteq> []\<close> by simp
    then have "\<not> is_ws (hd (rev zs))" using h by simp
    then show ?thesis using z \<open>zs \<noteq> []\<close> by (cases "rev zs") auto
  qed
  have b: "dropWhile is_ws s = [] \<or> \<not> is_ws (hd (dropWhile is_ws s))"
    by (metis hd_dropWhile)
  show ?thesis
    unfolding trim_def
    by (simp add: a [OF b] dropWhile_idem)
qed

lemma trim_Nil [simp]: "trim [] = []"
  by (simp add: trim_def)

lemma truthyE: "truthy x \<Longrightarrow> (\<And>z. x = Some z \<Longrightarrow> z \<noteq> [] \<Longrightarrow> P) \<Longrightarrow> P"
  by (cases x) auto

section \<open>The history store\<close>

lemma addToHistory_ok:
  "0 \<le> getHistorySize w \<Longrightarrow>
   addToHistory orig ups w =
     (Inr (), w\<lparr>globalState_history :=
                  Some (take (nat (getHistorySize w))
                    (\<lparr>original = orig, upscaled = ups, timestamp = now w\<rparr> # getHistory w)),
               trace := trace w @ [GlobalStateUpdate (take (nat (getHistorySize w))
                    (\<lparr>original = orig, upscaled = ups, timestamp = now w\<rparr> # getHistory w))]\<rparr>)"
  by (cases "globalState_history w")
     (simp_all add: addToHistory_def Let_def io_bind_def unshift_def set_length_def
        alias_history_def io_return_def globalState_update_def)

lemma addToHistory_negative:
  "getHistorySize w < 0 \<Longrightarrow>
   addToHistory orig ups w =
     (Inl (RangeError ''Invalid array length''),
      alias_history (\<lparr>original = orig, upscaled = ups, timestamp = now w\<rparr> # getHistory w) w)"
  by (simp add: addToHistory_def Let_def io_bind_def unshift_def set_length_def)

lemma alias_history_frame:
  "trace (alias_history h w) = trace w \<and> config (alias_history h w) = config w
   \<and> getHistory (alias_history h w)
       = (case globalState_history w of Some _ \<Rightarrow> h | None \<Rightarrow> [])"
  by (simp add: alias_history_def getHistory_def split: option.splits)

lemma getHistory_after_insert:
  "0 \<le> getHistorySize w \<Longrightarrow>
   getHistory (snd (addToHistory orig ups w)) =
     take (nat (getHistorySize w))
       (\<lparr>original = orig, upscaled = ups, timestamp = now w\<rparr> # getHistory w)"
  by (simp add: addToHistory_ok getHistory_def)

lemma inserts_ok:
  "historySize (config w) = Some (int N) \<Longrightarrow>
   fst (inserts es w) = Inr () \<and> config (snd (inserts es w)) = config w \<and>
   getHistory (snd (inserts es w)) =
     (if es = [] then getHistory w else take N (rev (map entry_of es) @ getHistory w))"
proof (induction es arbitrary: w)
  case Nil
  then show ?case by (simp add: io_return_def)
next
  case (Cons e es)
  obtain orig ups t where e: "e = (orig, ups, t)" by (cases e) auto
  let ?w0 = "w\<lparr>now := t\<rparr>"
  have sz: "getHistorySize ?w0 = int N" using Cons.prems by (simp add: getHistorySize_def)
  let ?h1 = "take N (entry_of e # getHistory w)"
  let ?w1 = "?w0\<lparr>globalState_history := Some ?h1,
                 trace := trace ?w0 @ [GlobalStateUpdate ?h1]\<rparr>"
  have step: "addToHistory orig ups ?w0 = (Inr (), ?w1)"
    using addToHistory_ok [of ?w0 orig ups] sz by (simp add: e entry_of_def getHistory_def)
  have run: "inserts (e # es) w = inserts es ?w1"
    by (simp add: e io_bind_def step)
  have cfg: "historySize (config ?w1) = Some (int N)" using Cons.prems by simp
  have h1: "getHistory ?w1 = ?h1" by (simp add: getHistory_def)
  from Cons.IH [OF cfg] run h1 show ?case
    by (auto simp: take_Cons' min_def split: if_splits)
qed

text \<open>
  Claim C4, as stated, at maximum size 0: after one insert into an empty store the list is
  empty, so it has no first element and the inserted entry is not in it.
\<close>

theorem C4_size_zero_counterexample:
  "getHistory (snd (inserts [(''a'', ''A'', 1)] (configure_historySize 0 world0))) = []
   \<and> entry_of (''a'', ''A'', 1)
       \<notin> set (getHistory (snd (inserts [(''a'', ''A'', 1)] (configure_historySize 0 world0))))"
  by (simp add: configure_historySize_def world0_def addToHistory_def getHistory_def
      getHistorySize_def io_bind_def io_return_def unshift_def set_length_def
      alias_history_def globalState_update_def Let_def)

text \<open>
  Claim C4, amended. With maximum size \<open>N\<close> configured, one insert succeeds and leaves
  the first \<open>N\<close> entries of the new entry followed by the old log: the length is at most
  \<open>N\<close>, the new entry is put at index 0 and only entries beyond index \<open>N - 1\<close> are
  dropped. After \<open>N + 1\<close> inserts the log has length exactly \<open>N\<close>, and for \<open>N \<ge> 1\<close> its
  first element is the entry inserted last; for \<open>N = 0\<close> the log is empty.
\<close>

theorem C4_history_bounded_most_recent_first:
  "historySize (config w) = Some (int N) \<Longrightarrow>
   fst (addToHistory orig ups w) = Inr ()
   \<and> getHistory (snd (addToHistory orig ups w)) =
       take N (\<lparr>original = orig, upscaled = ups, timestamp = now w\<rparr> # getHistory w)
   \<and> length (getHistory (snd (addToHistory orig ups w))) \<le> N
   \<and> (length es = Suc N \<longrightarrow>
        fst (inserts es w) = Inr ()
        \<and> length (getHistory (snd (inserts es w))) = N
        \<and> (0 < N \<longrightarrow> hd (getHistory (snd (inserts es w))) = entry_of (last es))
        \<and> (N = 0 \<longrightarrow> getHistory (snd (inserts es w)) = []))"
proof -
  assume cfg: "historySize (config w) = Some (int N)"
  then have sz: "getHistorySize w = int N" by (simp add: getHistorySize_def)
  have one: "fst (addToHistory orig ups w) = Inr ()"
    using addToHistory_ok [of w orig ups] sz by simp
  have lst: "getHistory (snd (addToHistory orig ups w)) =
       take N (\<lparr>original = orig, upscaled = ups, timestamp = now w\<rparr> # getHistory w)"
    using getHistory_after_insert [of w orig ups] sz by simp
  have len: "length (getHistory (snd (addToHistory orig ups w))) \<le> N"
    by (simp add: lst)
  have many: "fst (inserts es w) = Inr ()
        \<and> length (getHistory (snd (inserts es w))) = N
        \<and> (0 < N \<longrightarrow> hd (getHistory (snd (inserts es w))) = entry_of (last es))
        \<and> (N = 0 \<longrightarrow> getHistory (snd (inserts es w)) = [])"
    if l: "length es = Suc N"
  proof -
    from l have ne: "es \<noteq> []" by auto
    from inserts_ok [OF cfg, of es] ne
    have ok: "fst (inserts es w) = Inr ()"
      and h: "getHistory (snd (inserts es w)) = take N (rev (map entry_of es) @ getHistory w)"
      by simp_all
    have "length (getHistory (snd (inserts es w))) = N" using l by (simp add: h)
    moreover have "hd (getHistory (snd (inserts es w))) = entry_of (last es)" if "0 < N"
      using that ne by (simp add: h hd_append hd_rev last_map)
    moreover have "getHistory (snd (inserts es w)) = []" if "N = 0"
      using that by (simp add: h)
    ultimately show ?thesis using ok by blast
  qed
  from one lst len many show ?thesis by blast
qed

theorem C4_history_bounded_most_recent_first_witness:
  "historySize (config (configure_historySize 2 world0)) = Some (int 2)
   \<and> length three_inserts = Suc 2
   \<and> length (getHistory (snd (inserts three_inserts (configure_historySize 2 world0)))) = 2
   \<and> hd (getHistory (snd (inserts three_inserts (configure_historySize 2 world0))))
       = \<lparr>original = ''c'', upscaled = ''C'', timestamp = 3\<rparr>
   \<and> historySize (config (configure_historySize 0 world0)) = Some (int 0)
   \<and> getHistory (snd (inserts [(''a'', ''A'', 1)] (configure_historySize 0 world0))) = []"
proof -
  have h: "historySize (config (configure_historySize 2 world0)) = Some (int 2)"
    by (simp add: configure_historySize_def)
  have l: "length three_inserts = Suc 2" by (simp add: three_inserts_def)
  have e: "entry_of (last three_inserts) = \<lparr>original = ''c'', upscaled = ''C'', timestamp = 3\<rparr>"
    by (simp add: three_inserts_def entry_of_def)
  have h0: "historySize (config (configure_historySize 0 world0)) = Some (int 0)"
    by (simp add: configure_historySize_def)
  from C4_history_bounded_most_recent_first [OF h0, of "[]" "[]" "[(''a'', ''A'', 1)]"]
  have z: "getHistory (snd (inserts [(''a'', ''A'', 1)] (configure_historySize 0 world0))) = []"
    by simp
  from C4_history_bounded_most_recent_first [OF h, of "[]" "[]" three_inserts] l e h h0 z
  show ?thesis by simp
qed

text \<open>
  Claim C8. The maximum size is read from the configuration by the insert itself: when
  the setting is changed to \<open>M\<close>, a size below the current length of the log, the next
  insert succeeds and leaves a log of length exactly \<open>M\<close>.
\<close>

theorem C8_reduced_size_takes_effect_on_next_insert:
  "0 \<le> M \<Longrightarrow> M < int (length (getHistory w)) \<Longrightarrow>
   getHistorySize (configure_historySize M w) = M
   \<and> fst (addToHistory orig ups (configure_historySize M w)) = Inr ()
   \<and> int (length (getHistory (snd (addToHistory orig ups (configure_historySize M w))))) = M"
proof -
  assume M: "0 \<le> M" and lt: "M < int (length (getHistory w))"
  let ?w = "configure_historySize M w"
  have sz: "getHistorySize ?w = M"
    by (simp add: configure_historySize_def getHistorySize_def)
  have same: "getHistory ?w = getHistory w"
    by (simp add: configure_historySize_def getHistory_def)
  have ok: "fst (addToHistory orig ups ?w) = Inr ()"
    using addToHistory_ok [of ?w orig ups] M sz by simp
  have "getHistory (snd (addToHistory orig ups ?w)) =
          take (nat M) (\<lparr>original = orig, upscaled = ups, timestamp = now ?w\<rparr> # getHistory w)"
    using getHistory_after_insert [of ?w orig ups] M sz same by simp
  then have "int (length (getHistory (snd (addToHistory orig ups ?w)))) = M"
    using M lt by simp
  with sz ok show ?thesis by simp
qed

theorem C8_reduced_size_takes_effect_on_next_insert_witness:
  "(0::int) \<le> 1
   \<and> 1 < int (length (getHistory (snd (inserts three_inserts world0))))
   \<and> int (length (getHistory (snd (addToHistory ''d'' ''D''
         (configure_historySize 1 (snd (inserts three_inserts world0))))))) = 1"
proof -
  have h: "getHistory (snd (inserts three_inserts world0))
             = [\<lparr>original = ''c'', upscaled = ''C'', timestamp = 3\<rparr>,
                \<lparr>original = ''b'', upscaled = ''B'', timestamp = 2\<rparr>,
                \<lparr>original = ''a'', upscaled = ''A'', timestamp = 1\<rparr>]"
    by (simp add: three_inserts_def world0_def addToHistory_def getHistory_def
        getHistorySize_def io_bind_def io_return_def unshift_def set_length_def
        alias_history_def globalState_update_def Let_def)
  have lt: "1 < int (length (getHistory (snd (inserts three_inserts world0))))"
    by (simp add: h)
  from C8_reduced_size_takes_effect_on_next_insert
         [of 1 "snd (inserts three_inserts world0)" "''d''" "''D''"] lt
  show ?thesis by simp
qed

text \<open>
  Claim C10. The configured size reaches the truncation as it is, whatever integer it is.
  For a size that is not negative the insert returns normally. For a negative size the
  assignment to the array's length throws a RangeError and the insert returns no value:
  \<open>globalState.update\<close> is not reached, and the array, which \<open>unshift\<close> has already
  changed in place, holds the new entry in front of the old ones; when that array is the
  stored one, so does the store.
\<close>

theorem C10_insert_faults_exactly_on_negative_size:
  "getHistorySize (configure_historySize n w) = n
   \<and> (0 \<le> n \<longrightarrow> fst (addToHistory orig ups (configure_historySize n w)) = Inr ())
   \<and> (n < 0 \<longrightarrow>
        fst (addToHistory orig ups (configure_historySize n w))
          = Inl (RangeError ''Invalid array length'')
        \<and> trace (snd (addToHistory orig ups (configure_historySize n w))) = trace w
        \<and> getHistory (snd (addToHistory orig ups (configure_historySize n w)))
            = (case globalState_history w of
                 Some h \<Rightarrow> \<lparr>original = orig, upscaled = ups, timestamp = now w\<rparr> # h
               | None \<Rightarrow> []))"
proof -
  let ?w = "configure_historySize n w"
  have sz: "getHistorySize ?w = n"
    by (simp add: configure_historySize_def getHistorySize_def)
  have same: "globalState_history ?w = globalState_history w" "now ?w = now w"
    "trace ?w = trace w"
    by (simp_all add: configure_historySize_def)
  have "fst (addToHistory orig ups ?w) = Inr ()" if "0 \<le> n"
    using addToHistory_ok [of ?w orig ups] that sz by simp
  moreover have "fst (addToHistory orig ups ?w) = Inl (RangeError ''Invalid array length'')
        \<and> trace (snd (addToHistory orig ups ?w)) = trace w
        \<and> getHistory (snd (addToHistory orig ups ?w))
            = (case globalState_history w of
                 Some h \<Rightarrow> \<lparr>original = orig, upscaled = ups, timestamp = now w\<rparr> # h
               | None \<Rightarrow> [])"
    if "n < 0"
  proof -
    from that sz have neg: "getHistorySize ?w < 0" by simp
    note a = addToHistory_negative [OF neg, of orig ups]
    have f: "fst (addToHistory orig ups ?w) = Inl (RangeError ''Invalid array length'')"
      by (simp add: a)
    have t: "trace (snd (addToHistory orig ups ?w)) = trace w"
      by (simp add: a alias_history_frame same)
    have g: "getHistory (snd (addToHistory orig ups ?w))
               = (case globalState_history w of
                    Some _ \<Rightarrow> \<lparr>original = orig, upscaled = ups, timestamp = now w\<rparr>
                               # getHistory ?w
                  | None \<Rightarrow> [])"
      by (simp add: a alias_history_frame same)
    have "getHistory (snd (addToHistory orig ups ?w))
            = (case globalState_history w of
                 Some h \<Rightarrow> \<lparr>original = orig, upscaled = ups, timestamp = now w\<rparr> # h
               | None \<Rightarrow> [])"
      unfolding g by (cases "globalState_history w") (simp_all add: getHistory_def same)
    with f t show ?thesis by simp
  qed
  ultimately show ?thesis using sz by blast
qed

theorem C10_insert_faults_exactly_on_negative_size_witness:
  "(0::int) \<le> 3 \<and> (-1::int) < 0
   \<and> fst (addToHistory ''a'' ''A'' (configure_historySize 3 world0)) = Inr ()
   \<and> fst (addToHistory ''a'' ''A'' (configure_historySize (-1) world0))
       = Inl (RangeError ''Invalid array length'')
   \<and> getHistory (snd (addToHistory ''a'' ''A'' (configure_historySize (-1) world0))) = []
   \<and> getHistory (snd (addToHistory ''d'' ''D''
        (configure_historySize (-1) (world0\<lparr>globalState_history :=
           Some [\<lparr>original = ''c'', upscaled = ''C'', timestamp = 3\<rparr>], now := 4\<rparr>))))
       = [\<lparr>original = ''d'', upscaled = ''D'', timestamp = 4\<rparr>,
          \<lparr>original = ''c'', upscaled = ''C'', timestamp = 3\<rparr>]"
proof -
  have g: "globalState_history world0 = None"
    by (simp add: world0_def)
  show ?thesis
    using C10_insert_faults_exactly_on_negative_size [of 3 world0 "''a''" "''A''"]
          C10_insert_faults_exactly_on_negative_size [of "-1" world0 "''a''" "''A''"]
          C10_insert_faults_exactly_on_negative_size
            [of "-1" "world0\<lparr>globalState_history :=
               Some [\<lparr>original = ''c'', upscaled = ''C'', timestamp = 3\<rparr>], now := 4\<rparr>"
               "''d''" "''D''"]
          g
    by simp
qed

section \<open>Functions that change only the trace\<close>

lemma io_postD:
  "io_post P Q m \<Longrightarrow> \<exists>r evs. m w = (r, w\<lparr>trace := trace w @ evs\<rparr>) \<and> P evs \<and> Q r"
  unfolding io_post_def by blast

lemma io_post_return: "P [] \<Longrightarrow> Q (Inr x) \<Longrightarrow> io_post P Q (io_return x)"
  unfolding io_post_def io_return_def
  by (intro allI exI [of _ "[]"] exI [of _ "Inr x"]) simp

lemma io_post_throw: "P [] \<Longrightarrow> Q (Inl e) \<Longrightarrow> io_post P Q (io_throw e)"
  unfolding io_post_def io_throw_def
  by (intro allI exI [of _ "[]"] exI [of _ "Inl e"]) simp

lemma io_post_lift: "P [] \<Longrightarrow> Q r \<Longrightarrow> io_post P Q (lift r)"
  unfolding io_post_def lift_def
  by (intro allI exI [of _ "[]"] exI [of _ r]) simp

lemma io_post_emit: "P [ev] \<Longrightarrow> Q (Inr ()) \<Longrightarrow> io_post P Q (emit ev)"
  unfolding io_post_def emit_def
  by (intro allI exI [of _ "[ev]"] exI [of _ "Inr ()"]) simp

lemma io_post_read: "P [] \<Longrightarrow> (\<And>w. Q (g w)) \<Longrightarrow> io_post P Q (\<lambda>w. lift (g w) w)"
  unfolding io_post_def lift_def
proof
  fix w
  assume "P []" and "\<And>w. Q (g w)"
  then have "(g w, w) = (g w, w\<lparr>trace := trace w @ []\<rparr>) \<and> P [] \<and> Q (g w)" by simp
  then show "\<exists>r evs. (g w, w) = (r, w\<lparr>trace := trace w @ evs\<rparr>) \<and> P evs \<and> Q r" by blast
qed

lemma io_post_bind:
  assumes m: "io_post P1 Q1 m"
    and f: "\<And>x. Q1 (Inr x) \<Longrightarrow> io_post P2 Q (f x)"
    and e: "\<And>e evs. Q1 (Inl e) \<Longrightarrow> P1 evs \<Longrightarrow> Q (Inl e) \<and> P evs"
    and p: "\<And>evs evs'. P1 evs \<Longrightarrow> P2 evs' \<Longrightarrow> P (evs @ evs')"
  shows "io_post P Q (io_bind m f)"
  unfolding io_post_def
proof
  fix w
  from io_postD [OF m, of w] obtain r evs
    where mw: "m w = (r, w\<lparr>trace := trace w @ evs\<rparr>)" and p1: "P1 evs" and q1: "Q1 r"
    by blast
  show "\<exists>r evs. io_bind m f w = (r, w\<lparr>trace := trace w @ evs\<rparr>) \<and> P evs \<and> Q r"
  proof (cases r)
    case (Inl ex)
    then have "io_bind m f w = (Inl ex, w\<lparr>trace := trace w @ evs\<rparr>)"
      using mw by (simp add: io_bind_def)
    moreover have "Q (Inl ex) \<and> P evs" using e q1 p1 Inl by blast
    ultimately show ?thesis by blast
  next
    case (Inr x)
    let ?w1 = "w\<lparr>trace := trace w @ evs\<rparr>"
    from io_postD [OF f, of x ?w1] q1 Inr obtain r' evs'
      where fw: "f x ?w1 = (r', ?w1\<lparr>trace := trace ?w1 @ evs'\<rparr>)" and p2: "P2 evs'" and q: "Q r'"
      by blast
    have "io_bind m f w = (r', w\<lparr>trace := trace w @ (evs @ evs')\<rparr>)"
      using mw Inr fw by (simp add: io_bind_def)
    moreover have "P (evs @ evs')" using p p1 p2 by blast
    ultimately show ?thesis using q by blast
  qed
qed

lemma io_post_catch:
  assumes m: "io_post P1 Q1 m"
    and h: "\<And>e. Q1 (Inl e) \<Longrightarrow> io_post P2 Q (h e)"
    and x: "\<And>x evs. Q1 (Inr x) \<Longrightarrow> P1 evs \<Longrightarrow> Q (Inr x) \<and> P evs"
    and p: "\<And>evs evs'. P1 evs \<Longrightarrow> P2 evs' \<Longrightarrow> P (evs @ evs')"
  shows "io_post P Q (io_catch m h)"
  unfolding io_post_def
proof
  fix w
  from io_postD [OF m, of w] obtain r evs
    where mw: "m w = (r, w\<lparr>trace := trace w @ evs\<rparr>)" and p1: "P1 evs" and q1: "Q1 r"
    by blast
  show "\<exists>r evs. io_catch m h w = (r, w\<lparr>trace := trace w @ evs\<rparr>) \<and> P evs \<and> Q r"
  proof (cases r)
    case (Inr v)
    then have "io_catch m h w = (Inr v, w\<lparr>trace := trace w @ evs\<rparr>)"
      using mw by (simp add: io_catch_def)
    moreover have "Q (Inr v) \<and> P evs" using x q1 p1 Inr by blast
    ultimately show ?thesis by blast
  next
    case (Inl ex)
    let ?w1 = "w\<lparr>trace := trace w @ evs\<rparr>"
    from io_postD [OF h, of ex ?w1] q1 Inl obtain r' evs'
      where fw: "h ex ?w1 = (r', ?w1\<lparr>trace := trace ?w1 @ evs'\<rparr>)" and p2: "P2 evs'" and q: "Q r'"
      by blast
    have "io_catch m h w = (r', w\<lparr>trace := trace w @ (evs @ evs')\<rparr>)"
      using mw Inl fw by (simp add: io_catch_def)
    moreover have "P (evs @ evs')" using p p1 p2 by blast
    ultimately show ?thesis using q by blast
  qed
qed

lemma io_post_bind_all:
  assumes "io_post (list_all E) (\<lambda>_. True) m"
    and "\<And>x. io_post (list_all E) Q (f x)"
    and "\<And>e. Q (Inl e)"
  shows "io_post (list_all E) Q (io_bind m f)"
  by (rule io_post_bind [where ?P1.0 = "list_all E" and ?P2.0 = "list_all E" and ?Q1.0 = "\<lambda>_. True"])
     (use assms in auto)

lemma io_post_weaken:
  "io_post P Q m \<Longrightarrow> (\<And>evs. P evs \<Longrightarrow> P' evs) \<Longrightarrow> (\<And>r. Q r \<Longrightarrow> Q' r) \<Longrightarrow> io_post P' Q' m"
  unfolding io_post_def by blast

lemmas post_intros = io_post_return io_post_throw io_post_lift io_post_emit io_post_bind_all

lemma list_all_False: "list_all (\<lambda>_. False) evs = (evs = [])"
  by (cases evs) auto

lemma new_events_append [simp]:
  "new_events w (w\<lparr>trace := trace w @ evs\<rparr>) = evs"
  by (simp add: new_events_def)

lemma lm_event_not_external:
  "list_all lm_event evs \<Longrightarrow>
   Invoke ExternalApi \<notin> set evs \<and> filter is_Fetch evs = [] \<and> count_list evs (Invoke ExternalApi) = 0"
  by (induction evs) (auto elim: lm_event.elims)

lemma lm_event_provider: "list_all lm_event evs \<Longrightarrow> list_all provider_event evs"
  by (induction evs) (auto elim: lm_event.elims)

lemma provider_event_not_write:
  "list_all provider_event evs \<Longrightarrow> filter write_event evs = []"
  by (induction evs) (auto elim: provider_event.elims)

lemma reply_text_trace [simp]: "reply_text (w\<lparr>trace := tr\<rparr>) e = reply_text w e"
  by (cases e) simp_all

section \<open>The host model client\<close>

lemma tryVscodeLm_body_post:
  "io_post (list_all lm_event) host_result (tryVscodeLm_body input sp tok)"
  unfolding io_post_def
proof
  fix w
  show "\<exists>r evs. tryVscodeLm_body input sp tok w = (r, w\<lparr>trace := trace w @ evs\<rparr>)
          \<and> list_all lm_event evs \<and> host_result r"
    unfolding tryVscodeLm_body_def Let_def
    apply (cases "lm w"; simp)
     apply (rule io_postD, rule io_post_return; simp)
    apply (rule io_postD)
    apply (auto split: option.splits intro!: post_intros)
    done
qed

lemma tryVscodeLm_post:
  "io_post (\<lambda>evs. \<exists>evs'. evs = Invoke HostModel # evs' \<and> list_all lm_event evs')
     (\<lambda>r. (\<exists>res. r = Inr res) \<and> host_result r)
     (tryVscodeLm input sp tok)"
  unfolding tryVscodeLm_def
proof (rule io_post_bind [where ?P1.0 = "\<lambda>evs. evs = [Invoke HostModel]"
        and ?Q1.0 = "\<lambda>r. r = Inr ()" and ?P2.0 = "list_all lm_event"])
  show "io_post (\<lambda>evs. evs = [Invoke HostModel]) (\<lambda>r. r = Inr ()) (emit (Invoke HostModel))"
    by (rule io_post_emit) simp_all
next
  fix x :: unit
  show "io_post (list_all lm_event) (\<lambda>r. (\<exists>res. r = Inr res) \<and> host_result r)
         (io_catch (tryVscodeLm_body input sp tok)
           (\<lambda>err. io_return (Failure (''vscode.lm error: '' @ message err))))"
  proof (rule io_post_catch [where ?P1.0 = "list_all lm_event" and ?Q1.0 = host_result
          and ?P2.0 = "list_all lm_event"])
    show "io_post (list_all lm_event) host_result (tryVscodeLm_body input sp tok)"
      by (rule tryVscodeLm_body_post)
  qed (auto intro!: io_post_return)
qed auto

lemma tryVscodeLm_shape:
  "\<exists>res evs. tryVscodeLm input sp tok w = (Inr res, w\<lparr>trace := trace w @ Invoke HostModel # evs\<rparr>)
     \<and> list_all lm_event evs \<and> (\<forall>t s. res = Success t s \<longrightarrow> s = Src_vscode_lm)"
proof -
  from io_postD [OF tryVscodeLm_post, of input sp tok w]
  obtain r evs where a: "tryVscodeLm input sp tok w = (r, w\<lparr>trace := trace w @ evs\<rparr>)"
    and b: "\<exists>evs'. evs = Invoke HostModel # evs' \<and> list_all lm_event evs'"
    and c: "(\<exists>res. r = Inr res) \<and> host_result r"
    by blast
  from b obtain evs' where b': "evs = Invoke HostModel # evs'" "list_all lm_event evs'" by blast
  from c obtain res where c': "r = Inr res" by blast
  have "\<forall>t s. res = Success t s \<longrightarrow> s = Src_vscode_lm" using c c' by auto
  with a b' c' show ?thesis by blast
qed

lemma tryVscodeLm_success_reply:
  "tryVscodeLm input sp tok w = (Inr (Success t s), w') \<Longrightarrow>
   map_option trim (reply_text w (last (trace w'))) = Some t"
  unfolding tryVscodeLm_def tryVscodeLm_body_def Let_def io_defs
  by (auto split: option.splits sum.splits prod.splits if_splits)

section \<open>The HTTP clients\<close>

lemma callOpenAI_post:
  "io_post (\<lambda>evs. \<exists>req. evs = [Fetch req]) openai_result (callOpenAI k m input sp)"
  unfolding callOpenAI_def Let_def first_choice_content_def
  apply (rule io_post_bind [where ?P1.0 = "\<lambda>evs. \<exists>req. evs = [Fetch req]"
        and ?Q1.0 = "\<lambda>r. r = Inr ()" and ?P2.0 = "list_all (\<lambda>_. False)"])
     apply (rule io_post_emit; simp)
    apply (auto intro!: post_intros io_post_read simp: trim_trim list_all_False split: list.splits option.splits)
  done

lemma callAnthropic_post:
  "io_post (\<lambda>evs. \<exists>req. evs = [Fetch req]) anthropic_result (callAnthropic k m input sp)"
  unfolding callAnthropic_def Let_def first_text_block_def
  apply (rule io_post_bind [where ?P1.0 = "\<lambda>evs. \<exists>req. evs = [Fetch req]"
        and ?Q1.0 = "\<lambda>r. r = Inr ()" and ?P2.0 = "list_all (\<lambda>_. False)"])
     apply (rule io_post_emit; simp)
    apply (auto intro!: post_intros io_post_read simp: trim_trim list_all_False split: list.splits option.splits)
  done

lemma callOpenAI_success_reply:
  "callOpenAI k m input sp w = (Inr (Success t s), w') \<Longrightarrow>
   map_option trim (reply_text w (last (trace w'))) = Some t"
  unfolding callOpenAI_def Let_def io_defs
  by (auto simp: openai_request_def elim!: truthyE split: option.splits sum.splits prod.splits if_splits)

lemma callAnthropic_success_reply:
  "callAnthropic k m input sp w = (Inr (Success t s), w') \<Longrightarrow>
   map_option trim (reply_text w (last (trace w'))) = Some t"
  unfolding callAnthropic_def Let_def io_defs
  by (auto simp: anthropic_request_def elim!: truthyE split: option.splits sum.splits prod.splits if_splits)

lemma external_call_post:
  "io_post (\<lambda>evs. \<exists>req. evs = [Fetch req]) external_result
     (if provider = openai then callOpenAI k m input sp else callAnthropic k m input sp)"
proof (cases "provider = openai")
  case True
  have "openai_result r \<Longrightarrow> external_result r" for r
    by (cases r rule: openai_result.cases) auto
  then show ?thesis using True io_post_weaken [OF callOpenAI_post] by simp
next
  case False
  have "anthropic_result r \<Longrightarrow> external_result r" for r
    by (cases r rule: anthropic_result.cases) auto
  then show ?thesis using False io_post_weaken [OF callAnthropic_post] by simp
qed

lemma tryExternalApi_nokey:
  "\<not> truthy (apiKey (config w)) \<Longrightarrow>
   tryExternalApi input sp w =
     (Inr (Failure ''No API key configured. Set gigo.apiKey in settings.''),
      w\<lparr>trace := trace w @ [Invoke ExternalApi]\<rparr>)"
  by (simp add: tryExternalApi_def Let_def io_bind_def emit_def io_return_def)

lemma tryExternalApi_key:
  "truthy (apiKey (config w)) \<Longrightarrow>
   tryExternalApi input sp w =
     (let provider = (case apiProvider (config w) of Some p \<Rightarrow> p | None \<Rightarrow> openai);
          mdl = (if truthy (model (config w)) then the (model (config w))
                 else DEFAULT_MODELS provider)
      in io_catch
           (if provider = openai
            then callOpenAI (the (apiKey (config w))) mdl input sp
            else callAnthropic (the (apiKey (config w))) mdl input sp)
           (\<lambda>err. io_return (Failure (provider_name provider @ '' API error: '' @ message err)))
           (w\<lparr>trace := trace w @ [Invoke ExternalApi]\<rparr>))"
  by (simp add: tryExternalApi_def Let_def io_bind_def emit_def io_catch_def)

lemma tryExternalApi_shape:
  "\<exists>res evs. tryExternalApi input sp w = (Inr res, w\<lparr>trace := trace w @ Invoke ExternalApi # evs\<rparr>)
     \<and> (evs = [] \<or> (\<exists>req. evs = [Fetch req]))
     \<and> (\<forall>t s. res = Success t s \<longrightarrow>
           (\<exists>req. evs = [Fetch req]) \<and> (s = Src_openai \<or> s = Src_anthropic) \<and> trim t = t)"
proof (cases "truthy (apiKey (config w))")
  case False
  have "tryExternalApi input sp w =
      (Inr (Failure ''No API key configured. Set gigo.apiKey in settings.''),
       w\<lparr>trace := trace w @ Invoke ExternalApi # []\<rparr>)"
    using tryExternalApi_nokey [OF False] by simp
  then show ?thesis by blast
next
  case True
  let ?w1 = "w\<lparr>trace := trace w @ [Invoke ExternalApi]\<rparr>"
  define provider where "provider = (case apiProvider (config w) of Some p \<Rightarrow> p | None \<Rightarrow> openai)"
  define mdl where "mdl = (if truthy (model (config w)) then the (model (config w))
                 else DEFAULT_MODELS provider)"
  define call where "call = (if provider = openai
            then callOpenAI (the (apiKey (config w))) mdl input sp
            else callAnthropic (the (apiKey (config w))) mdl input sp)"
  define handler :: "exn \<Rightarrow> UpscaleResult io" where "handler = (\<lambda>err. io_return (Failure (provider_name provider @ '' API error: '' @ message err)))"
  have eq: "tryExternalApi input sp w = io_catch call handler ?w1"
    using tryExternalApi_key [OF True]
    by (simp add: Let_def provider_def mdl_def call_def handler_def)
  from io_postD [OF external_call_post, of provider "the (apiKey (config w))" mdl input sp ?w1]
  obtain r req where c: "call ?w1 = (r, ?w1\<lparr>trace := trace ?w1 @ [Fetch req]\<rparr>)"
    and q: "external_result r"
    unfolding call_def by blast
  have w2: "?w1\<lparr>trace := trace ?w1 @ [Fetch req]\<rparr> = w\<lparr>trace := trace w @ Invoke ExternalApi # [Fetch req]\<rparr>"
    by simp
  show ?thesis
  proof (cases r)
    case (Inl e)
    have "tryExternalApi input sp w = (Inr (Failure (provider_name provider @ '' API error: '' @ message e)),
            w\<lparr>trace := trace w @ Invoke ExternalApi # [Fetch req]\<rparr>)"
      unfolding eq using c Inl by (simp add: io_catch_def handler_def io_return_def)
    then show ?thesis by blast
  next
    case (Inr res)
    have e: "tryExternalApi input sp w = (Inr res, w\<lparr>trace := trace w @ Invoke ExternalApi # [Fetch req]\<rparr>)"
      unfolding eq using c Inr by (simp add: io_catch_def)
    have "\<forall>t s. res = Success t s \<longrightarrow> (s = Src_openai \<or> s = Src_anthropic) \<and> trim t = t"
      using q Inr by auto
    with e show ?thesis by blast
  qed
qed

lemma tryExternalApi_success_reply:
  assumes "tryExternalApi input sp w = (Inr (Success t s), w')"
  shows "map_option trim (reply_text w (last (trace w'))) = Some t"
proof (cases "truthy (apiKey (config w))")
  case False
  from tryExternalApi_nokey [OF False, of input sp] assms show ?thesis by simp
next
  case True
  let ?w1 = "w\<lparr>trace := trace w @ [Invoke ExternalApi]\<rparr>"
  define provider where "provider = (case apiProvider (config w) of Some p \<Rightarrow> p | None \<Rightarrow> openai)"
  define mdl where "mdl = (if truthy (model (config w)) then the (model (config w))
                 else DEFAULT_MODELS provider)"
  define handler :: "exn \<Rightarrow> UpscaleResult io" where "handler = (\<lambda>err. io_return (Failure (provider_name provider @ '' API error: '' @ message err)))"
  have rt: "reply_text ?w1 = reply_text w"
    by (rule ext) simp
  show ?thesis
  proof (cases "provider = openai")
    case op: True
    have eq: "tryExternalApi input sp w = io_catch (callOpenAI (the (apiKey (config w))) mdl input sp) handler ?w1"
      using tryExternalApi_key [OF True, of input sp] op
      by (simp add: Let_def provider_def mdl_def handler_def)
    obtain r w2 where c: "callOpenAI (the (apiKey (config w))) mdl input sp ?w1 = (r, w2)"
      by (cases "callOpenAI (the (apiKey (config w))) mdl input sp ?w1") auto
    from assms eq c have "r = Inr (Success t s) \<and> w2 = w'"
      by (cases r) (auto simp: io_catch_def handler_def io_return_def)
    with c callOpenAI_success_reply [of "the (apiKey (config w))" mdl input sp ?w1 t s w']
    show ?thesis by (simp add: rt)
  next
    case an: False
    have eq: "tryExternalApi input sp w = io_catch (callAnthropic (the (apiKey (config w))) mdl input sp) handler ?w1"
      using tryExternalApi_key [OF True, of input sp] an
      by (simp add: Let_def provider_def mdl_def handler_def)
    obtain r w2 where c: "callAnthropic (the (apiKey (config w))) mdl input sp ?w1 = (r, w2)"
      by (cases "callAnthropic (the (apiKey (config w))) mdl input sp ?w1") auto
    from assms eq c have "r = Inr (Success t s) \<and> w2 = w'"
      by (cases r) (auto simp: io_catch_def handler_def io_return_def)
    with c callAnthropic_success_reply [of "the (apiKey (config w))" mdl input sp ?w1 t s w']
    show ?thesis by (simp add: rt)
  qed
qed

text \<open>
  Claim C3 at a 200 response whose text is a single space: \<open>callOpenAI\<close> and
  \<open>callAnthropic\<close> test the text before trimming it, so each returns a success whose
  text is empty, and so does \<open>upscalePrompt\<close>.
\<close>

theorem C3_blank_content_returned_as_empty_success:
  "fst (callOpenAI ''sk-test'' ''gpt-4o'' ''fix'' ''Rewrite this:'' (world_blank_content openai))
     = Inr (Success [] Src_openai)
   \<and> fst (callAnthropic ''sk-test'' ''claude-sonnet-4-20250514'' ''fix'' ''Rewrite this:''
            (world_blank_content anthropic))
     = Inr (Success [] Src_anthropic)
   \<and> fst (upscalePrompt ''fix'' None (world_blank_content openai)) = Inr (Success [] Src_openai)
   \<and> fst (upscalePrompt ''fix'' None (world_blank_content anthropic))
       = Inr (Success [] Src_anthropic)"
  by (simp add: llm_defs io_defs world_blank_content_def world0_def openai_response_def
      anthropic_response_def trim_def is_ws_def)

section \<open>The fallback orchestrator\<close>

lemma upscalePrompt_unfold:
  "tryVscodeLm input (getEffectiveSystemPrompt w) tok w = (hr, w1) \<Longrightarrow>
   tryExternalApi input (getEffectiveSystemPrompt w) w1 = (er, w2) \<Longrightarrow>
   upscalePrompt input tok w =
     (case hr of
        Inl e \<Rightarrow> (Inl e, w1)
      | Inr (Success t s) \<Rightarrow> (Inr (Success t s), w1)
      | Inr (Failure a) \<Rightarrow>
          (case er of
             Inl e \<Rightarrow> (Inl e, w2)
           | Inr (Success t s) \<Rightarrow> (Inr (Success t s), w2)
           | Inr (Failure b) \<Rightarrow>
               (Inr (Failure (''vscode.lm: '' @ a @ [CHR 0x0A] @ ''External API: '' @ b)), w2)))"
  by (simp add: upscalePrompt_def Let_def io_bind_def io_return_def
      split: sum.splits UpscaleResult.splits)

lemma upscalePrompt_shape:
  "\<exists>res evs. upscalePrompt input tok w = (Inr res, w\<lparr>trace := trace w @ evs\<rparr>)
     \<and> list_all provider_event evs"
proof -
  let ?sp = "getEffectiveSystemPrompt w"
  from tryVscodeLm_shape [of input ?sp tok w]
  obtain hres hevs where h: "tryVscodeLm input ?sp tok w = (Inr hres, w\<lparr>trace := trace w @ Invoke HostModel # hevs\<rparr>)"
    and hevs: "list_all lm_event hevs"
    by blast
  let ?w1 = "w\<lparr>trace := trace w @ Invoke HostModel # hevs\<rparr>"
  from tryExternalApi_shape [of input ?sp ?w1]
  obtain eres eevs where e: "tryExternalApi input ?sp ?w1 = (Inr eres, ?w1\<lparr>trace := trace ?w1 @ Invoke ExternalApi # eevs\<rparr>)"
    and eevs: "eevs = [] \<or> (\<exists>req. eevs = [Fetch req])"
    by blast
  let ?w2 = "w\<lparr>trace := trace w @ (Invoke HostModel # hevs @ Invoke ExternalApi # eevs)\<rparr>"
  have w2: "?w1\<lparr>trace := trace ?w1 @ Invoke ExternalApi # eevs\<rparr> = ?w2" by simp
  have p1: "list_all provider_event (Invoke HostModel # hevs)"
    using lm_event_provider [OF hevs] by simp
  have p2: "list_all provider_event (Invoke HostModel # hevs @ Invoke ExternalApi # eevs)"
    using lm_event_provider [OF hevs] eevs by auto
  note u = upscalePrompt_unfold [OF h e]
  show ?thesis
  proof (cases hres)
    case (Success t s)
    then have "upscalePrompt input tok w = (Inr (Success t s), ?w1)" using u by simp
    with p1 show ?thesis by blast
  next
    case (Failure a)
    show ?thesis
    proof (cases eres)
      case (Success t s)
      then have "upscalePrompt input tok w = (Inr (Success t s), ?w2)"
        using u Failure by (simp only: w2) simp
      with p2 show ?thesis by blast
    next
      case F2: (Failure b)
      then have "upscalePrompt input tok w =
          (Inr (Failure (''vscode.lm: '' @ a @ [CHR 0x0A] @ ''External API: '' @ b)), ?w2)"
        using u Failure by (simp only: w2) simp
      with p2 show ?thesis by blast
    qed
  qed
qed

lemma upscalePrompt_success_world:
  assumes up: "upscalePrompt input tok w = (Inr (Success t s), w1)"
  shows "\<exists>evs. w1 = w\<lparr>trace := trace w @ evs\<rparr> \<and> list_all provider_event evs"
  using upscalePrompt_shape [of input tok w] up by auto

lemma upscalePrompt_success_reply:
  assumes up: "upscalePrompt input tok w = (Inr (Success t s), w')"
  shows "map_option trim (reply_text w (last (trace w'))) = Some t"
proof -
  let ?sp = "getEffectiveSystemPrompt w"
  obtain hr w1 where h: "tryVscodeLm input ?sp tok w = (hr, w1)"
    by (cases "tryVscodeLm input ?sp tok w") auto
  obtain er w2 where e: "tryExternalApi input ?sp w1 = (er, w2)"
    by (cases "tryExternalApi input ?sp w1") auto
  from tryVscodeLm_shape [of input ?sp tok w] h
  obtain hres hevs where hr: "hr = Inr hres"
    and w1: "w1 = w\<lparr>trace := trace w @ Invoke HostModel # hevs\<rparr>"
    by auto
  note u = upscalePrompt_unfold [OF h e]
  show ?thesis
  proof (cases hres)
    case (Success t1 s1)
    with u hr up have "hr = Inr (Success t s) \<and> w1 = w'" by simp
    with h tryVscodeLm_success_reply [of input ?sp tok w t s w'] show ?thesis by simp
  next
    case (Failure a)
    with u hr up have "er = Inr (Success t s) \<and> w2 = w'"
      by (cases er; simp split: UpscaleResult.splits)
    with e tryExternalApi_success_reply [of input ?sp w1 t s w'] show ?thesis
      by (simp add: w1)
  qed
qed

lemma host_ok_run:
  "fst (tryVscodeLm ''fix'' (getEffectiveSystemPrompt world_host_ok) None world_host_ok)
     = Inr (Success ''Investigate and resolve the reported API issue.'' Src_vscode_lm)"
  by (simp add: llm_defs io_defs world_defs trim_def is_ws_def)

lemma external_ok_host_run:
  "tryVscodeLm ''fix'' (getEffectiveSystemPrompt world_external_ok) None world_external_ok
     = (Inr (Failure ''vscode.lm API not available''),
        world_external_ok\<lparr>trace := [Invoke HostModel]\<rparr>)"
  by (simp add: llm_defs io_defs world_defs)

lemma external_ok_external_run:
  "fst (tryExternalApi ''fix'' (getEffectiveSystemPrompt world_external_ok)
         (world_external_ok\<lparr>trace := [Invoke HostModel]\<rparr>))
     = Inr (Success ''Gold prompt'' Src_openai)"
  by (simp add: llm_defs io_defs world_defs trim_def is_ws_def)

lemma cancelled_host_run:
  "tryVscodeLm ''fix'' (getEffectiveSystemPrompt world_cancelled) (Some cancelled_token)
     world_cancelled
     = (Inr (Failure ''vscode.lm error: Canceled''),
        world_cancelled\<lparr>trace := [Invoke HostModel, SelectChatModels (Some ''gpt-4o''),
          SendRequest cancellable_model [user_message ''Rewrite this:'' ''fix'']
            cancelled_token]\<rparr>)"
  by (simp add: llm_defs io_defs world_defs)

lemma cancelled_external_run:
  "fst (tryExternalApi ''fix'' (getEffectiveSystemPrompt world_cancelled)
         (world_cancelled\<lparr>trace := [Invoke HostModel, SelectChatModels (Some ''gpt-4o''),
            SendRequest cancellable_model [user_message ''Rewrite this:'' ''fix'']
              cancelled_token]\<rparr>))
     = Inr (Success ''Gold prompt'' Src_openai)"
  by (simp add: llm_defs io_defs world_defs trim_def is_ws_def)

lemma nothing_configured_host_run:
  "tryVscodeLm ''fix'' (getEffectiveSystemPrompt world0) tok world0
     = (Inr (Failure ''vscode.lm API not available''), world0\<lparr>trace := [Invoke HostModel]\<rparr>)"
  by (simp add: llm_defs io_defs world_defs)

lemma nothing_configured_external_run:
  "tryExternalApi ''fix'' (getEffectiveSystemPrompt world0) (world0\<lparr>trace := [Invoke HostModel]\<rparr>)
     = (Inr (Failure ''No API key configured. Set gigo.apiKey in settings.''),
        world0\<lparr>trace := [Invoke HostModel, Invoke ExternalApi]\<rparr>)"
  by (simp add: llm_defs io_defs world_defs)

text \<open>
  Claim C1, as stated, in a world where the user has cancelled: the host request fails
  with the cancellation, the token's cancellation is requested, and \<open>upscalePrompt\<close>
  still enters the external client and returns its success.
\<close>

theorem C1_cancelled_host_failure_still_falls_back_counterexample:
  "isCancellationRequested cancelled_token
   \<and> fst (tryVscodeLm ''fix'' (getEffectiveSystemPrompt world_cancelled) (Some cancelled_token)
            world_cancelled) = Inr (Failure ''vscode.lm error: Canceled'')
   \<and> fst (upscalePrompt ''fix'' (Some cancelled_token) world_cancelled)
       = Inr (Success ''Gold prompt'' Src_openai)
   \<and> Invoke ExternalApi \<in> set (trace (snd (upscalePrompt ''fix'' (Some cancelled_token) world_cancelled)))"
  by (simp add: llm_defs io_defs world_defs trim_def is_ws_def)

text \<open>
  Claim C1, amended. \<open>upscalePrompt\<close> hands the token to the host model request and
  never reads it. Whenever the host attempt fails, cancelled or not, the external client
  is entered exactly once and returns without throwing; \<open>upscalePrompt\<close> returns its
  success, or the failure that joins both reasons.
\<close>

theorem C1_external_tried_whatever_the_token:
  assumes h: "tryVscodeLm input (getEffectiveSystemPrompt w) (Some token) w = (Inr (Failure a), w1)"
    and e: "tryExternalApi input (getEffectiveSystemPrompt w) w1 = (er, w2)"
  shows "count_list (new_events w w2) (Invoke ExternalApi) = 1
    \<and> (\<forall>t s. er = Inr (Success t s) \<longrightarrow>
          upscalePrompt input (Some token) w = (Inr (Success t s), w2))
    \<and> (\<forall>b. er = Inr (Failure b) \<longrightarrow>
          upscalePrompt input (Some token) w =
            (Inr (Failure (''vscode.lm: '' @ a @ [CHR 0x0A] @ ''External API: '' @ b)), w2))
    \<and> (\<exists>res. er = Inr res)"
proof -
  let ?sp = "getEffectiveSystemPrompt w"
  from tryVscodeLm_shape [of input ?sp "Some token" w] h
  obtain hevs where w1: "w1 = w\<lparr>trace := trace w @ Invoke HostModel # hevs\<rparr>"
    and hevs: "list_all lm_event hevs"
    by auto
  from tryExternalApi_shape [of input ?sp w1] e
  obtain eres eevs where er: "er = Inr eres"
    and w2: "w2 = w1\<lparr>trace := trace w1 @ Invoke ExternalApi # eevs\<rparr>"
    and eevs: "eevs = [] \<or> (\<exists>req. eevs = [Fetch req])"
    by auto
  have w2': "w2 = w\<lparr>trace := trace w @ (Invoke HostModel # hevs @ Invoke ExternalApi # eevs)\<rparr>"
    by (simp add: w2 w1)
  note u = upscalePrompt_unfold [OF h e]
  have "count_list (new_events w w2) (Invoke ExternalApi) = 1"
    using lm_event_not_external [OF hevs] eevs by (auto simp: w2')
  moreover have "upscalePrompt input (Some token) w = (Inr (Success t s), w2)"
    if "er = Inr (Success t s)" for t s using u that by simp
  moreover have "upscalePrompt input (Some token) w =
            (Inr (Failure (''vscode.lm: '' @ a @ [CHR 0x0A] @ ''External API: '' @ b)), w2)"
    if "er = Inr (Failure b)" for b using u that by simp
  ultimately show ?thesis using er by blast
qed

theorem C1_external_tried_whatever_the_token_witness:
  "isCancellationRequested cancelled_token
   \<and> fst (tryVscodeLm ''fix'' (getEffectiveSystemPrompt world_cancelled) (Some cancelled_token)
            world_cancelled) = Inr (Failure ''vscode.lm error: Canceled'')
   \<and> fst (upscalePrompt ''fix'' (Some cancelled_token) world_cancelled)
       = Inr (Success ''Gold prompt'' Src_openai)
   \<and> count_list (new_events world_cancelled
          (snd (upscalePrompt ''fix'' (Some cancelled_token) world_cancelled)))
        (Invoke ExternalApi) = 1
   \<and> fst (tryVscodeLm ''fix'' (getEffectiveSystemPrompt world0) (Some cancelled_token) world0)
       = Inr (Failure ''vscode.lm API not available'')
   \<and> fst (upscalePrompt ''fix'' (Some cancelled_token) world0)
       = Inr (Failure (''vscode.lm: vscode.lm API not available'' @ [CHR 0x0A]
            @ ''External API: No API key configured. Set gigo.apiKey in settings.''))"
proof -
  let ?w1 = "world_cancelled\<lparr>trace := [Invoke HostModel, SelectChatModels (Some ''gpt-4o''),
            SendRequest cancellable_model [user_message ''Rewrite this:'' ''fix'']
              cancelled_token]\<rparr>"
  let ?e = "tryExternalApi ''fix'' (getEffectiveSystemPrompt world_cancelled) ?w1"
  have b: "?e = (Inr (Success ''Gold prompt'' Src_openai), snd ?e)"
    using cancelled_external_run by (metis prod.collapse)
  from C1_external_tried_whatever_the_token [OF cancelled_host_run b]
  have p: "upscalePrompt ''fix'' (Some cancelled_token) world_cancelled
             = (Inr (Success ''Gold prompt'' Src_openai), snd ?e)"
    and q: "count_list (new_events world_cancelled (snd ?e)) (Invoke ExternalApi) = 1"
    by blast+
  from C1_external_tried_whatever_the_token
         [OF nothing_configured_host_run nothing_configured_external_run]
  have f: "upscalePrompt ''fix'' (Some cancelled_token) world0
             = (Inr (Failure (''vscode.lm: vscode.lm API not available'' @ [CHR 0x0A]
                  @ ''External API: No API key configured. Set gigo.apiKey in settings.'')),
                world0\<lparr>trace := [Invoke HostModel, Invoke ExternalApi]\<rparr>)"
    by simp
  have g: "fst (tryVscodeLm ''fix'' (getEffectiveSystemPrompt world0) (Some cancelled_token)
                  world0) = Inr (Failure ''vscode.lm API not available'')"
    by (simp add: nothing_configured_host_run)
  show ?thesis
    using cancelled_host_run p q f g by (simp add: cancelled_token_def)
qed

text \<open>
  Claim C5. The first event of an invocation is the entry into the host model client.
  When that client succeeds, \<open>upscalePrompt\<close> returns its text tagged \<open>vscode.lm\<close>, in
  the world the client left: the external client is not entered and nothing is fetched.
  When it fails and the external client succeeds, \<open>upscalePrompt\<close> returns that success
  with the external source; the external client was entered once and fetched once.
\<close>

theorem C5_host_first_external_only_after_failure:
  assumes h: "tryVscodeLm input (getEffectiveSystemPrompt w) tok w = (hr, w1)"
    and e: "tryExternalApi input (getEffectiveSystemPrompt w) w1 = (er, w2)"
  shows "take 1 (new_events w (snd (upscalePrompt input tok w))) = [Invoke HostModel]
    \<and> (\<forall>t s. hr = Inr (Success t s) \<longrightarrow>
          upscalePrompt input tok w = (Inr (Success t Src_vscode_lm), w1)
          \<and> Invoke ExternalApi \<notin> set (new_events w w1)
          \<and> filter is_Fetch (new_events w w1) = [])
    \<and> (\<forall>a t s. hr = Inr (Failure a) \<and> er = Inr (Success t s) \<longrightarrow>
          upscalePrompt input tok w = (Inr (Success t s), w2)
          \<and> (s = Src_openai \<or> s = Src_anthropic)
          \<and> count_list (new_events w w2) (Invoke ExternalApi) = 1
          \<and> length (filter is_Fetch (new_events w w2)) = 1)"
proof -
  let ?sp = "getEffectiveSystemPrompt w"
  from tryVscodeLm_shape [of input ?sp tok w] h
  obtain hres hevs where hr: "hr = Inr hres"
    and w1: "w1 = w\<lparr>trace := trace w @ Invoke HostModel # hevs\<rparr>"
    and hevs: "list_all lm_event hevs"
    and hsrc: "\<forall>t s. hres = Success t s \<longrightarrow> s = Src_vscode_lm"
    by auto
  from tryExternalApi_shape [of input ?sp w1] e
  obtain eres eevs where er: "er = Inr eres"
    and w2: "w2 = w1\<lparr>trace := trace w1 @ Invoke ExternalApi # eevs\<rparr>"
    and eevs: "eevs = [] \<or> (\<exists>req. eevs = [Fetch req])"
    and esrc: "\<forall>t s. eres = Success t s \<longrightarrow>
           (\<exists>req. eevs = [Fetch req]) \<and> (s = Src_openai \<or> s = Src_anthropic) \<and> trim t = t"
    by auto
  have w2': "w2 = w\<lparr>trace := trace w @ (Invoke HostModel # hevs @ Invoke ExternalApi # eevs)\<rparr>"
    by (simp add: w2 w1)
  note u = upscalePrompt_unfold [OF h e]
  note quiet = lm_event_not_external [OF hevs]
  have first: "take 1 (new_events w (snd (upscalePrompt input tok w))) = [Invoke HostModel]"
  proof (cases hres)
    case (Success t s)
    then show ?thesis using u hr by (simp add: w1)
  next
    case (Failure a)
    then show ?thesis using u hr er by (cases eres) (simp_all add: w2')
  qed
  have ok: "upscalePrompt input tok w = (Inr (Success t Src_vscode_lm), w1)
          \<and> Invoke ExternalApi \<notin> set (new_events w w1)
          \<and> filter is_Fetch (new_events w w1) = []"
    if "hr = Inr (Success t s)" for t s
  proof -
    from that hr hsrc have s: "s = Src_vscode_lm" by simp
    have "upscalePrompt input tok w = (Inr (Success t Src_vscode_lm), w1)"
      using u that s by simp
    then show ?thesis using quiet by (simp add: w1)
  qed
  have fb: "upscalePrompt input tok w = (Inr (Success t s), w2)
          \<and> (s = Src_openai \<or> s = Src_anthropic)
          \<and> count_list (new_events w w2) (Invoke ExternalApi) = 1
          \<and> length (filter is_Fetch (new_events w w2)) = 1"
    if "hr = Inr (Failure a) \<and> er = Inr (Success t s)" for a t s
  proof -
    from that er have es: "eres = Success t s" by simp
    with esrc obtain req where req: "eevs = [Fetch req]"
      and s: "s = Src_openai \<or> s = Src_anthropic" by blast
    have "upscalePrompt input tok w = (Inr (Success t s), w2)"
      using u that by simp
    then show ?thesis using quiet s by (simp add: w2' req)
  qed
  from first ok fb show ?thesis by blast
qed

theorem C5_host_first_external_only_after_failure_witness:
  "fst (tryVscodeLm ''fix'' (getEffectiveSystemPrompt world_host_ok) None world_host_ok)
     = Inr (Success ''Investigate and resolve the reported API issue.'' Src_vscode_lm)
   \<and> fst (upscalePrompt ''fix'' None world_host_ok)
     = Inr (Success ''Investigate and resolve the reported API issue.'' Src_vscode_lm)
   \<and> Invoke ExternalApi \<notin> set (new_events world_host_ok (snd (upscalePrompt ''fix'' None world_host_ok)))
   \<and> fst (tryVscodeLm ''fix'' (getEffectiveSystemPrompt world_external_ok) None world_external_ok)
     = Inr (Failure ''vscode.lm API not available'')
   \<and> fst (upscalePrompt ''fix'' None world_external_ok) = Inr (Success ''Gold prompt'' Src_openai)
   \<and> count_list (new_events world_external_ok (snd (upscalePrompt ''fix'' None world_external_ok)))
        (Invoke ExternalApi) = 1"
proof -
  let ?h1 = "tryVscodeLm ''fix'' (getEffectiveSystemPrompt world_host_ok) None world_host_ok"
  let ?e1 = "tryExternalApi ''fix'' (getEffectiveSystemPrompt world_host_ok) (snd ?h1)"
  let ?w1 = "world_external_ok\<lparr>trace := [Invoke HostModel]\<rparr>"
  let ?e2 = "tryExternalApi ''fix'' (getEffectiveSystemPrompt world_external_ok) ?w1"
  have a: "?h1 = (Inr (Success ''Investigate and resolve the reported API issue.'' Src_vscode_lm), snd ?h1)"
    using host_ok_run by (metis prod.collapse)
  have b: "?e2 = (Inr (Success ''Gold prompt'' Src_openai), snd ?e2)"
    using external_ok_external_run by (metis prod.collapse)
  from C5_host_first_external_only_after_failure [OF a prod.collapse [symmetric, of ?e1]]
  have p1: "upscalePrompt ''fix'' None world_host_ok
              = (Inr (Success ''Investigate and resolve the reported API issue.'' Src_vscode_lm), snd ?h1)"
    and p2: "Invoke ExternalApi \<notin> set (new_events world_host_ok (snd ?h1))"
    by blast+
  from C5_host_first_external_only_after_failure [OF external_ok_host_run b]
  have q1: "upscalePrompt ''fix'' None world_external_ok
              = (Inr (Success ''Gold prompt'' Src_openai), snd ?e2)"
    and q2: "count_list (new_events world_external_ok (snd ?e2)) (Invoke ExternalApi) = 1"
    by blast+
  show ?thesis
    using host_ok_run external_ok_host_run p1 p2 q1 q2 by simp
qed

text \<open>
  Claim C6. When the host model client fails with reason \<open>a\<close> and the external client
  with reason \<open>b\<close>, \<open>upscalePrompt\<close> returns one failure whose text is \<open>vscode.lm: \<close>
  and \<open>a\<close>, a line break, \<open>External API: \<close> and \<open>b\<close>.
\<close>

theorem C6_both_failures_aggregated:
  "tryVscodeLm input (getEffectiveSystemPrompt w) tok w = (Inr (Failure a), w1) \<Longrightarrow>
   tryExternalApi input (getEffectiveSystemPrompt w) w1 = (Inr (Failure b), w2) \<Longrightarrow>
   upscalePrompt input tok w =
     (Inr (Failure (''vscode.lm: '' @ a @ [CHR 0x0A] @ ''External API: '' @ b)), w2)"
  using upscalePrompt_unfold [of input w tok "Inr (Failure a)" w1 "Inr (Failure b)" w2]
  by simp

theorem C6_both_failures_aggregated_witness:
  "fst (tryVscodeLm ''fix'' (getEffectiveSystemPrompt world0) None world0)
     = Inr (Failure ''vscode.lm API not available'')
   \<and> fst (tryExternalApi ''fix'' (getEffectiveSystemPrompt world0)
            (world0\<lparr>trace := [Invoke HostModel]\<rparr>))
     = Inr (Failure ''No API key configured. Set gigo.apiKey in settings.'')
   \<and> fst (upscalePrompt ''fix'' None world0)
     = Inr (Failure (''vscode.lm: vscode.lm API not available'' @ [CHR 0x0A]
          @ ''External API: No API key configured. Set gigo.apiKey in settings.''))"
  using C6_both_failures_aggregated
          [OF nothing_configured_host_run nothing_configured_external_run]
        nothing_configured_host_run nothing_configured_external_run
  by simp

section \<open>The upscale commands\<close>

lemma performUpscale_records_entry:
  assumes nc: "\<not> isCancellationRequested (progress_token w)"
    and up: "upscalePrompt inputText (Some (progress_token w)) w = (Inr (Success t s), w1)"
    and sz: "0 \<le> getHistorySize w"
  shows "fst (performUpscale inputText ctx mode w) = Inr ()
    \<and> getHistory (snd (performUpscale inputText ctx mode w))
        = take (nat (getHistorySize w))
            (\<lparr>original = inputText, upscaled = t, timestamp = now w\<rparr> # getHistory w)"
proof -
  from upscalePrompt_success_world [OF up]
  obtain evs where w1: "w1 = w\<lparr>trace := trace w @ evs\<rparr>" by blast
  have sz1: "getHistorySize w1 = getHistorySize w" and h1: "getHistory w1 = getHistory w"
    and n1: "now w1 = now w"
    by (simp_all add: w1 getHistorySize_def getHistory_def)
  have a: "addToHistory inputText t w1 =
     (Inr (), w1\<lparr>globalState_history :=
                  Some (take (nat (getHistorySize w))
                    (\<lparr>original = inputText, upscaled = t, timestamp = now w\<rparr> # getHistory w)),
               trace := trace w1 @ [GlobalStateUpdate (take (nat (getHistorySize w))
                    (\<lparr>original = inputText, upscaled = t, timestamp = now w\<rparr> # getHistory w))]\<rparr>)"
    using addToHistory_ok [of w1 inputText t] sz by (simp add: sz1 h1 n1)
  show ?thesis
    using nc up a
    by (cases ctx)
       (simp_all add: performUpscale_def Let_def io_bind_def io_return_def ui_defs emit_def
          getHistory_def)
qed

lemma performUpscale_destination:
  assumes nc: "\<not> isCancellationRequested (progress_token w)"
    and up: "upscalePrompt inputText (Some (progress_token w)) w = (Inr (Success t s), w1)"
    and sz: "0 \<le> getHistorySize w"
  shows "\<exists>evs h rest.
      new_events w (snd (performUpscale inputText ctx mode w))
        = evs @ GlobalStateUpdate h
            # (case ctx of Some c \<Rightarrow> EditorReplace (ctx_selection c) t
               | None \<Rightarrow> ClipboardWrite t) # rest
      \<and> list_all provider_event evs \<and> ShowInputBox \<notin> set rest \<and> ClipboardRead \<notin> set rest"
proof -
  from upscalePrompt_success_world [OF up]
  obtain evs where w1: "w1 = w\<lparr>trace := trace w @ evs\<rparr>" and p: "list_all provider_event evs"
    by blast
  have sz1: "getHistorySize w1 = getHistorySize w" and h1: "getHistory w1 = getHistory w"
    and n1: "now w1 = now w"
    by (simp_all add: w1 getHistorySize_def getHistory_def)
  define h where "h = take (nat (getHistorySize w))
                    (\<lparr>original = inputText, upscaled = t, timestamp = now w\<rparr> # getHistory w)"
  have a: "addToHistory inputText t w1 =
     (Inr (), w1\<lparr>globalState_history := Some h, trace := trace w1 @ [GlobalStateUpdate h]\<rparr>)"
    using addToHistory_ok [of w1 inputText t] sz by (simp add: sz1 h1 n1 h_def)
  have "\<exists>rest. new_events w (snd (performUpscale inputText ctx mode w))
        = evs @ GlobalStateUpdate h
            # (case ctx of Some c \<Rightarrow> EditorReplace (ctx_selection c) t
               | None \<Rightarrow> ClipboardWrite t) # rest
      \<and> ShowInputBox \<notin> set rest \<and> ClipboardRead \<notin> set rest"
    using nc up a
    by (cases ctx)
       (simp_all add: performUpscale_def Let_def io_bind_def io_return_def ui_defs emit_def
          new_events_def w1)
  with p show ?thesis by blast
qed

lemma executeUpscale_selection:
  "activeTextEditor w = Some ed \<Longrightarrow> trim (getText (document ed) (selection ed)) \<noteq> [] \<Longrightarrow>
   executeUpscale w =
     performUpscale (getText (document ed) (selection ed))
       (Some \<lparr>ctx_editor = ed, ctx_selection = selection ed\<rparr>) False w"
  by (auto simp: executeUpscale_def Let_def)

lemma executeUpscale_input_box:
  "\<not> nonblank (selectedText w) \<Longrightarrow>
   executeUpscale w =
     (if nonblank (inputBox_answer w)
      then performUpscale (the (inputBox_answer w)) None False
             (w\<lparr>trace := trace w @ [ShowInputBox]\<rparr>)
      else (Inr (), w\<lparr>trace := trace w @ [ShowInputBox]\<rparr>))"
  by (auto simp: executeUpscale_def Let_def nonblank_def selectedText_def io_bind_def
      showInputBox_def io_return_def)

lemma executeUpscaleClipboard_unfold:
  "executeUpscaleClipboard w =
     (if trim (clipboard w) \<noteq> []
      then performUpscale (clipboard w) None True (w\<lparr>trace := trace w @ [ClipboardRead]\<rparr>)
      else (Inr (), w\<lparr>trace := trace w
              @ [ClipboardRead, ShowWarningMessage ''GIGO: Clipboard is empty'']\<rparr>))"
  by (auto simp: executeUpscaleClipboard_def io_bind_def clipboard_readText_def
      showWarningMessage_def emit_def)

lemma restore_writes_original:
  assumes i: "i < length (getHistory w)"
    and pick: "\<And>items. quickPick_answer w items = Some i"
  shows "fst (executeRestoreOriginal w) = Inr ()
    \<and> List.map_filter written (new_events w (snd (executeRestoreOriginal w)))
        = [original (getHistory w ! i)]"
proof -
  from i have ne: "getHistory w \<noteq> []" by auto
  show ?thesis
    using i pick ne
    by (simp add: executeRestoreOriginal_def Let_def io_bind_def io_return_def ui_defs
        new_events_def split: option.splits)
qed

lemma selection_host_run:
  "fst (upscalePrompt ''  yo fix this api '' (Some (progress_token world_selection))
          world_selection)
     = Inr (Success ''Investigate and resolve the reported API issue.'' Src_vscode_lm)"
  by (simp add: llm_defs io_defs world_selection_def world_defs trim_def is_ws_def)

lemma clipboard_external_run:
  "fst (upscalePrompt ''refactor this'' (Some (progress_token world_clipboard_only))
          (world_clipboard_only\<lparr>trace := [ClipboardRead]\<rparr>))
     = Inr (Success ''Gold prompt'' Src_openai)"
  by (simp add: llm_defs io_defs world_clipboard_only_def world_defs trim_def is_ws_def)

text \<open>
  Claim C7. When the progress token's cancellation is requested once \<open>upscalePrompt\<close>
  has resolved, \<open>performUpscale\<close> returns at once: the persisted history, the clipboard
  and the editor are as before, and the invocation's events are those of the provider
  clients only, none of them a write to the history, the clipboard or the editor.
\<close>

theorem C7_cancelled_invocation_writes_nothing:
  assumes c: "isCancellationRequested (progress_token w)"
  shows "fst (performUpscale inputText editorContext isClipboardMode w) = Inr ()
    \<and> globalState_history (snd (performUpscale inputText editorContext isClipboardMode w))
        = globalState_history w
    \<and> clipboard (snd (performUpscale inputText editorContext isClipboardMode w)) = clipboard w
    \<and> activeTextEditor (snd (performUpscale inputText editorContext isClipboardMode w))
        = activeTextEditor w
    \<and> filter write_event
         (new_events w (snd (performUpscale inputText editorContext isClipboardMode w))) = []
    \<and> list_all provider_event
         (new_events w (snd (performUpscale inputText editorContext isClipboardMode w)))"
proof -
  from upscalePrompt_shape [of inputText "Some (progress_token w)" w]
  obtain res evs where u: "upscalePrompt inputText (Some (progress_token w)) w
        = (Inr res, w\<lparr>trace := trace w @ evs\<rparr>)"
    and p: "list_all provider_event evs"
    by blast
  have r: "performUpscale inputText editorContext isClipboardMode w
        = (Inr (), w\<lparr>trace := trace w @ evs\<rparr>)"
    using c u by (simp add: performUpscale_def Let_def io_bind_def io_return_def)
  show ?thesis
    using p provider_event_not_write [OF p] by (simp add: r)
qed

theorem C7_cancelled_invocation_writes_nothing_witness:
  "isCancellationRequested (progress_token world_cancelled)
   \<and> fst (performUpscale ''fix'' None True world_cancelled) = Inr ()
   \<and> globalState_history (snd (performUpscale ''fix'' None True world_cancelled)) = None
   \<and> clipboard (snd (performUpscale ''fix'' None True world_cancelled)) = []
   \<and> filter write_event
        (new_events world_cancelled (snd (performUpscale ''fix'' None True world_cancelled))) = []"
proof -
  have c: "isCancellationRequested (progress_token world_cancelled)"
    by (simp add: world_cancelled_def cancelled_token_def)
  have g: "globalState_history world_cancelled = None" and b: "clipboard world_cancelled = []"
    by (simp_all add: world_cancelled_def world_external_ok_def world0_def)
  from C7_cancelled_invocation_writes_nothing [OF c, of "''fix''" None True] c g b
  show ?thesis by simp
qed

lemma size0_run:
  "fst (executeUpscale world_selection_size0) = Inr ()
   \<and> document (the (activeTextEditor (snd (executeUpscale world_selection_size0))))
       = ''Investigate and resolve the reported API issue.''
   \<and> EditorReplace \<lparr>anchor = 0, active = 18\<rparr>
         ''Investigate and resolve the reported API issue.''
       \<in> set (trace (snd (executeUpscale world_selection_size0)))
   \<and> globalState_history (snd (executeUpscale world_selection_size0)) = Some []"
  by (simp add: executeUpscale_def performUpscale_def llm_defs io_defs ui_defs addToHistory_def
      getHistory_def getHistorySize_def unshift_def set_length_def alias_history_def
      globalState_update_def
      world_selection_size0_def configure_historySize_def world_selection_def world_defs
      user_message_def getText_def sel_start_def sel_end_def trim_def is_ws_def)

text \<open>
  Claim C9, as stated, at history size 0: the upscale of the selection succeeds and the
  selection is replaced, but the entry is truncated away at once, the history is empty,
  and a later restore finds no history and writes nothing: the original text is not
  written back.
\<close>

theorem C9_size_zero_keeps_no_original_counterexample:
  "getHistorySize world_selection_size0 = 0
   \<and> selectedText world_selection_size0 = Some ''  yo fix this api ''
   \<and> fst (executeUpscale world_selection_size0) = Inr ()
   \<and> EditorReplace \<lparr>anchor = 0, active = 18\<rparr>
         ''Investigate and resolve the reported API issue.''
       \<in> set (trace (snd (executeUpscale world_selection_size0)))
   \<and> getHistory (snd (executeUpscale world_selection_size0)) = []
   \<and> List.map_filter written
        (new_events (picks_first (snd (executeUpscale world_selection_size0)))
           (snd (executeRestoreOriginal
                  (picks_first (snd (executeUpscale world_selection_size0)))))) = []"
proof -
  let ?w' = "picks_first (snd (executeUpscale world_selection_size0))"
  have sz: "getHistorySize world_selection_size0 = 0"
    by (simp add: world_selection_size0_def configure_historySize_def getHistorySize_def)
  have sel: "selectedText world_selection_size0 = Some ''  yo fix this api ''"
    by (simp add: selectedText_def world_selection_size0_def configure_historySize_def
        world_selection_def world_defs getText_def sel_start_def sel_end_def)
  have h: "getHistory (snd (executeUpscale world_selection_size0)) = []"
    using size0_run by (simp add: getHistory_def)
  have h': "getHistory ?w' = []"
    using h by (simp add: picks_first_def getHistory_def)
  have r: "List.map_filter written (new_events ?w' (snd (executeRestoreOriginal ?w'))) = []"
    using h'
    by (simp add: executeRestoreOriginal_def Let_def io_bind_def io_return_def
        showInformationMessage_def new_events_def)
  from sz sel size0_run h r show ?thesis by simp
qed

text \<open>
  Claim C9, amended. When an upscale succeeds and is not cancelled, with a history size of
  at least one, the first history entry holds the input text exactly as \<open>performUpscale\<close>
  received it, and as its upscaled text the text of the result, which is the trimmed
  text of the reply to the last provider request. A later restore of that entry writes
  exactly the input text, once. The commands pass the text they captured unchanged: the
  selection's text, the typed text, the clipboard's text; trimming is used only to test
  that the text is not blank.
\<close>

theorem C9_history_keeps_raw_input_and_trimmed_output:
  assumes nc: "\<not> isCancellationRequested (progress_token w)"
    and up: "upscalePrompt inputText (Some (progress_token w)) w = (Inr (Success t s), w1)"
    and sz: "0 < getHistorySize w"
    and later: "getHistory w2 = getHistory (snd (performUpscale inputText ctx mode w))"
    and pick: "\<forall>items. quickPick_answer w2 items = Some 0"
  shows "fst (performUpscale inputText ctx mode w) = Inr ()
    \<and> hd (getHistory (snd (performUpscale inputText ctx mode w)))
        = \<lparr>original = inputText, upscaled = t, timestamp = now w\<rparr>
    \<and> map_option trim (reply_text w (last (trace w1))) = Some t
    \<and> fst (executeRestoreOriginal w2) = Inr ()
    \<and> List.map_filter written (new_events w2 (snd (executeRestoreOriginal w2))) = [inputText]
    \<and> (\<forall>ed. activeTextEditor v = Some ed \<and> trim (getText (document ed) (selection ed)) \<noteq> []
          \<longrightarrow> executeUpscale v =
                performUpscale (getText (document ed) (selection ed))
                  (Some \<lparr>ctx_editor = ed, ctx_selection = selection ed\<rparr>) False v)
    \<and> (\<not> nonblank (selectedText v) \<and> nonblank (inputBox_answer v)
          \<longrightarrow> executeUpscale v =
                performUpscale (the (inputBox_answer v)) None False
                  (v\<lparr>trace := trace v @ [ShowInputBox]\<rparr>))
    \<and> (trim (clipboard v) \<noteq> []
          \<longrightarrow> executeUpscaleClipboard v =
                performUpscale (clipboard v) None True
                  (v\<lparr>trace := trace v @ [ClipboardRead]\<rparr>))"
proof -
  let ?e = "\<lparr>original = inputText, upscaled = t, timestamp = now w\<rparr>"
  from sz have sz0: "0 \<le> getHistorySize w" by simp
  from performUpscale_records_entry [OF nc up sz0, of ctx mode]
  have ok: "fst (performUpscale inputText ctx mode w) = Inr ()"
    and h: "getHistory (snd (performUpscale inputText ctx mode w))
              = take (nat (getHistorySize w)) (?e # getHistory w)"
    by simp_all
  from sz obtain n where n: "nat (getHistorySize w) = Suc n"
    by (cases "nat (getHistorySize w)") auto
  have h2: "getHistory w2 = ?e # take n (getHistory w)"
    using later h n by simp
  then have i: "0 < length (getHistory w2)" by simp
  from restore_writes_original [OF i] pick
  have r: "fst (executeRestoreOriginal w2) = Inr ()"
    and wr: "List.map_filter written (new_events w2 (snd (executeRestoreOriginal w2)))
               = [inputText]"
    by (simp_all add: h2)
  have hd: "hd (getHistory (snd (performUpscale inputText ctx mode w))) = ?e"
    by (simp add: h n)
  note rp = upscalePrompt_success_reply [OF up]
  have sel: "executeUpscale v =
                performUpscale (getText (document ed) (selection ed))
                  (Some \<lparr>ctx_editor = ed, ctx_selection = selection ed\<rparr>) False v"
    if "activeTextEditor v = Some ed \<and> trim (getText (document ed) (selection ed)) \<noteq> []" for ed
    using executeUpscale_selection [of v ed] that by simp
  have typed: "executeUpscale v =
                performUpscale (the (inputBox_answer v)) None False
                  (v\<lparr>trace := trace v @ [ShowInputBox]\<rparr>)"
    if "\<not> nonblank (selectedText v) \<and> nonblank (inputBox_answer v)"
    using executeUpscale_input_box [of v] that by simp
  have clip: "executeUpscaleClipboard v =
                performUpscale (clipboard v) None True
                  (v\<lparr>trace := trace v @ [ClipboardRead]\<rparr>)"
    if "trim (clipboard v) \<noteq> []"
    using executeUpscaleClipboard_unfold [of v] that by simp
  from ok hd rp r wr sel typed clip show ?thesis by blast
qed

theorem C9_history_keeps_raw_input_and_trimmed_output_witness:
  "\<not> isCancellationRequested (progress_token world_selection)
   \<and> 0 < getHistorySize world_selection
   \<and> selectedText world_selection = Some ''  yo fix this api ''
   \<and> hd (getHistory (snd (executeUpscale world_selection)))
       = \<lparr>original = ''  yo fix this api '',
          upscaled = ''Investigate and resolve the reported API issue.'', timestamp = 0\<rparr>
   \<and> List.map_filter written
        (new_events (picks_first (snd (executeUpscale world_selection)))
           (snd (executeRestoreOriginal (picks_first (snd (executeUpscale world_selection))))))
       = [''  yo fix this api '']
   \<and> \<not> nonblank (selectedText world_typed) \<and> nonblank (inputBox_answer world_typed)
   \<and> executeUpscale world_typed
       = performUpscale '' add tests '' None False (world_typed\<lparr>trace := [ShowInputBox]\<rparr>)
   \<and> trim (clipboard world_clipboard_only) \<noteq> []
   \<and> executeUpscaleClipboard world_clipboard_only
       = performUpscale ''refactor this'' None True
           (world_clipboard_only\<lparr>trace := [ClipboardRead]\<rparr>)"
proof -
  let ?ed = "\<lparr>document = ''  yo fix this api '', selection = \<lparr>anchor = 0, active = 18\<rparr>\<rparr>"
  let ?ctx = "Some \<lparr>ctx_editor = ?ed, ctx_selection = \<lparr>anchor = 0, active = 18\<rparr>\<rparr>"
  let ?u = "upscalePrompt ''  yo fix this api '' (Some (progress_token world_selection))
              world_selection"
  let ?p = "performUpscale ''  yo fix this api '' ?ctx False world_selection"
  have nc: "\<not> isCancellationRequested (progress_token world_selection)"
    by (simp add: world_selection_def world_defs)
  have sz: "0 < getHistorySize world_selection"
    by (simp add: getHistorySize_def world_selection_def world_defs)
  have now0: "now world_selection = 0"
    by (simp add: world_selection_def world_defs)
  have up: "?u = (Inr (Success ''Investigate and resolve the reported API issue.'' Src_vscode_lm),
              snd ?u)"
    using selection_host_run by (metis prod.collapse)
  have ed: "activeTextEditor world_selection = Some ?ed"
    by (simp add: world_selection_def world_defs)
  have gt: "getText ''  yo fix this api '' \<lparr>anchor = 0, active = 18\<rparr> = ''  yo fix this api ''"
    by (simp add: getText_def sel_start_def sel_end_def)
  have sel: "selectedText world_selection = Some ''  yo fix this api ''"
    by (simp add: selectedText_def ed gt)
  have tr: "trim (getText ''  yo fix this api '' \<lparr>anchor = 0, active = 18\<rparr>) \<noteq> []"
    by (simp add: gt trim_def is_ws_def)
  have later: "getHistory (picks_first (snd ?p)) = getHistory (snd ?p)"
    by (simp add: picks_first_def getHistory_def)
  have pick: "\<forall>items. quickPick_answer (picks_first (snd ?p)) items = Some 0"
    by (simp add: picks_first_def)
  from C9_history_keeps_raw_input_and_trimmed_output
         [OF nc up sz later pick, of world_selection]
  have h: "hd (getHistory (snd ?p))
        = \<lparr>original = ''  yo fix this api '',
           upscaled = ''Investigate and resolve the reported API issue.'',
           timestamp = now world_selection\<rparr>"
    and w: "List.map_filter written
        (new_events (picks_first (snd ?p)) (snd (executeRestoreOriginal (picks_first (snd ?p)))))
       = [''  yo fix this api '']"
    and e: "\<forall>ed. activeTextEditor world_selection = Some ed
              \<and> trim (getText (document ed) (selection ed)) \<noteq> []
          \<longrightarrow> executeUpscale world_selection =
                performUpscale (getText (document ed) (selection ed))
                  (Some \<lparr>ctx_editor = ed, ctx_selection = selection ed\<rparr>) False world_selection"
    by blast+
  from e [rule_format, of ?ed] ed tr have x: "executeUpscale world_selection = ?p"
    by (simp add: gt)
  have ty: "\<not> nonblank (selectedText world_typed) \<and> nonblank (inputBox_answer world_typed)"
    by (simp add: nonblank_def selectedText_def world_typed_def world_defs trim_def is_ws_def)
  have ia: "the (inputBox_answer world_typed) = '' add tests ''" and t0: "trace world_typed = []"
    by (simp_all add: world_typed_def world_defs)
  from C9_history_keeps_raw_input_and_trimmed_output
         [OF nc up sz later pick, of world_typed] ty
  have y: "executeUpscale world_typed
       = performUpscale '' add tests '' None False (world_typed\<lparr>trace := [ShowInputBox]\<rparr>)"
    by (simp add: ia t0)
  have cb: "clipboard world_clipboard_only = ''refactor this''"
    and t1: "trace world_clipboard_only = []"
    by (simp_all add: world_clipboard_only_def world_defs)
  have tc: "trim (clipboard world_clipboard_only) \<noteq> []"
    by (simp add: cb trim_def is_ws_def)
  from C9_history_keeps_raw_input_and_trimmed_output
         [OF nc up sz later pick, of world_clipboard_only] tc
  have z: "executeUpscaleClipboard world_clipboard_only
       = performUpscale ''refactor this'' None True
           (world_clipboard_only\<lparr>trace := [ClipboardRead]\<rparr>)"
    by (simp add: cb t1)
  from nc sz sel h w now0 x ty y tc z show ?thesis by simp
qed

text \<open>
  Claim C2, as stated, in a world with no editor and the clipboard holding
  \<open>refactor this\<close>: the upscale command shows the input box, and as the user dismisses
  it nothing is upscaled and nothing is written.
\<close>

theorem C2_input_box_despite_clipboard_counterexample:
  "selectedText world_clipboard_only = None
   \<and> trim (clipboard world_clipboard_only) = ''refactor this''
   \<and> executeUpscale world_clipboard_only
       = (Inr (), world_clipboard_only\<lparr>trace := [ShowInputBox]\<rparr>)"
  by (simp add: executeUpscale_def selectedText_def world_clipboard_only_def
      world_external_ok_def world0_def Let_def io_bind_def showInputBox_def io_return_def
      trim_def is_ws_def)

text \<open>
  Claim C2, amended. The upscale command never reads the clipboard: when no selection
  holds text that is not blank it shows the input box, whatever the clipboard holds, and
  upscales what the user typed, or stops when that is blank. The clipboard round trip is
  the command \<open>executeUpscaleClipboard\<close>: with a clipboard that is not blank it
  upscales the clipboard's text in clipboard mode, otherwise it only warns. Without an
  editor context a successful upscale writes its text to the clipboard right after the
  history update, and shows no input box.
\<close>

theorem C2_upscale_command_never_reads_the_clipboard:
  "(\<not> nonblank (selectedText w) \<longrightarrow>
      executeUpscale w =
        (if nonblank (inputBox_answer w)
         then performUpscale (the (inputBox_answer w)) None False
                (w\<lparr>trace := trace w @ [ShowInputBox]\<rparr>)
         else (Inr (), w\<lparr>trace := trace w @ [ShowInputBox]\<rparr>)))
   \<and> executeUpscaleClipboard w =
        (if trim (clipboard w) \<noteq> []
         then performUpscale (clipboard w) None True (w\<lparr>trace := trace w @ [ClipboardRead]\<rparr>)
         else (Inr (), w\<lparr>trace := trace w
                 @ [ClipboardRead, ShowWarningMessage ''GIGO: Clipboard is empty'']\<rparr>))
   \<and> (\<not> isCancellationRequested (progress_token w)
        \<and> upscalePrompt inputText (Some (progress_token w)) w = (Inr (Success t s), w1)
        \<and> 0 \<le> getHistorySize w \<longrightarrow>
        (\<exists>evs h rest.
           new_events w (snd (performUpscale inputText None mode w))
             = evs @ GlobalStateUpdate h # ClipboardWrite t # rest
           \<and> list_all provider_event evs \<and> ShowInputBox \<notin> set rest
           \<and> ClipboardRead \<notin> set rest))"
proof -
  have a: "executeUpscale w =
        (if nonblank (inputBox_answer w)
         then performUpscale (the (inputBox_answer w)) None False
                (w\<lparr>trace := trace w @ [ShowInputBox]\<rparr>)
         else (Inr (), w\<lparr>trace := trace w @ [ShowInputBox]\<rparr>))"
    if "\<not> nonblank (selectedText w)"
    using executeUpscale_input_box [OF that] .
  have c: "\<exists>evs h rest.
           new_events w (snd (performUpscale inputText None mode w))
             = evs @ GlobalStateUpdate h # ClipboardWrite t # rest
           \<and> list_all provider_event evs \<and> ShowInputBox \<notin> set rest
           \<and> ClipboardRead \<notin> set rest"
    if "\<not> isCancellationRequested (progress_token w)
        \<and> upscalePrompt inputText (Some (progress_token w)) w = (Inr (Success t s), w1)
        \<and> 0 \<le> getHistorySize w"
    using performUpscale_destination [of w inputText t s w1 None mode] that by simp
  from a executeUpscaleClipboard_unfold [of w] c show ?thesis by blast
qed

theorem C2_upscale_command_never_reads_the_clipboard_witness:
  "\<not> nonblank (selectedText world_clipboard_only)
   \<and> trim (clipboard world_clipboard_only) \<noteq> []
   \<and> executeUpscale world_clipboard_only
       = (Inr (), world_clipboard_only\<lparr>trace := [ShowInputBox]\<rparr>)
   \<and> ClipboardWrite ''Gold prompt''
       \<in> set (trace (snd (executeUpscaleClipboard world_clipboard_only)))"
proof -
  let ?w = "world_clipboard_only"
  let ?w1 = "world_clipboard_only\<lparr>trace := [ClipboardRead]\<rparr>"
  let ?u = "upscalePrompt ''refactor this'' (Some (progress_token ?w1)) ?w1"
  have ns: "\<not> nonblank (selectedText ?w)"
    by (simp add: nonblank_def selectedText_def world_clipboard_only_def world_defs)
  have nb: "\<not> nonblank (inputBox_answer ?w)"
    by (simp add: nonblank_def world_clipboard_only_def world_defs)
  have cl: "clipboard ?w = ''refactor this''" and tr: "trace ?w = []"
    by (simp_all add: world_clipboard_only_def world_defs)
  have tc: "trim (clipboard ?w) \<noteq> []"
    by (simp add: cl trim_def is_ws_def)
  have nc: "\<not> isCancellationRequested (progress_token ?w1)"
    by (simp add: world_clipboard_only_def world_defs)
  have sz: "0 \<le> getHistorySize ?w1"
    by (simp add: getHistorySize_def world_clipboard_only_def world_defs)
  have "fst ?u = Inr (Success ''Gold prompt'' Src_openai)"
    using clipboard_external_run by simp
  then have up: "?u = (Inr (Success ''Gold prompt'' Src_openai), snd ?u)"
    by (metis prod.collapse)
  from C2_upscale_command_never_reads_the_clipboard [of ?w] ns nb tc
  have a: "executeUpscale ?w = (Inr (), ?w\<lparr>trace := trace ?w @ [ShowInputBox]\<rparr>)"
    and b: "executeUpscaleClipboard ?w
              = performUpscale (clipboard ?w) None True (?w\<lparr>trace := trace ?w @ [ClipboardRead]\<rparr>)"
    by simp_all
  from C2_upscale_command_never_reads_the_clipboard
         [of ?w1 "''refactor this''" "''Gold prompt''" Src_openai "snd ?u" True] nc sz up
  obtain evs h rest where
    "new_events ?w1 (snd (performUpscale ''refactor this'' None True ?w1))
       = evs @ GlobalStateUpdate h # ClipboardWrite ''Gold prompt'' # rest"
    by auto
  then have "ClipboardWrite ''Gold prompt''
      \<in> set (new_events ?w1 (snd (performUpscale ''refactor this'' None True ?w1)))"
    by simp
  then have "ClipboardWrite ''Gold prompt''
      \<in> set (trace (snd (performUpscale ''refactor this'' None True ?w1)))"
    unfolding new_events_def by (rule in_set_dropD)
  with a b ns tc show ?thesis by (simp add: cl tr)
qed

end
